theory Spec2Isabelle
  imports Complex_Main "HOL-Library.Word"
begin

unbundle bit_operations_syntax

section \<open>The Fruito backend (main.py, schemas.py)\<close>

text \<open>
  A shallow embedding of the request handlers of \<^verbatim>\<open>src/main.py\<close>. Python strings are
  \<^typ>\<open>string\<close> (their UTF-8 bytes), Python integers are \<^typ>\<open>int\<close>, an exception is the
  \<open>Inl\<close> branch of a sum, and the document store is passed in and returned by every
  handler, \<open>None\<close> standing for \<^verbatim>\<open>db is None\<close>.
\<close>

subsection \<open>hashlib.sha256 and hmac\<close>

text \<open>
  \<^verbatim>\<open>hash_password\<close> calls \<^verbatim>\<open>hmac.new(key, msg, hashlib.sha256).hexdigest()\<close>. The library
  functions are written out after FIPS 180-4 and RFC 2104 on bytes and 32-bit words.
\<close>

type_synonym byte = "8 word"
type_synonym w32 = "32 word"

text \<open>
  The round constants are the first 32 bits of the fractional parts of the cube roots of
  the first 64 primes, the initial hash value those of the square roots of the first 8.
  \<open>root_bits k n b r\<close> extends \<open>r\<close> by \<open>b\<close> lower bits to the largest number whose
  \<open>k\<close>-th power is at most \<open>n\<close>.
\<close>

definition is_prime :: "nat \<Rightarrow> bool" where
  "is_prime n = (1 < n \<and> list_all (\<lambda>d. n mod d \<noteq> 0) [2..<n])"

definition first_primes :: "nat \<Rightarrow> nat list" where
  "first_primes k = take k (filter is_prime [2..<312])"

fun root_bits :: "nat \<Rightarrow> nat \<Rightarrow> nat \<Rightarrow> nat \<Rightarrow> nat" where
  "root_bits k n 0 r = r"
| "root_bits k n (Suc b) r =
     root_bits k n b (if (r + 2 ^ b) ^ k \<le> n then r + 2 ^ b else r)"

definition K256 :: "w32 list" where
  "K256 = map (\<lambda>p. of_nat (root_bits 3 (p * 2 ^ 96) 40 0)) (first_primes 64)"

definition H256 :: "w32 list" where
  "H256 = map (\<lambda>p. of_nat (root_bits 2 (p * 2 ^ 64) 40 0)) (first_primes 8)"

definition Ch :: "w32 \<Rightarrow> w32 \<Rightarrow> w32 \<Rightarrow> w32" where
  "Ch x y z = (x AND y) XOR (NOT x AND z)"

definition Maj :: "w32 \<Rightarrow> w32 \<Rightarrow> w32 \<Rightarrow> w32" where
  "Maj x y z = (x AND y) XOR (x AND z) XOR (y AND z)"

definition Sigma0 :: "w32 \<Rightarrow> w32" where
  "Sigma0 x = word_rotr 2 x XOR word_rotr 13 x XOR word_rotr 22 x"

definition Sigma1 :: "w32 \<Rightarrow> w32" where
  "Sigma1 x = word_rotr 6 x XOR word_rotr 11 x XOR word_rotr 25 x"

definition sigma0 :: "w32 \<Rightarrow> w32" where
  "sigma0 x = word_rotr 7 x XOR word_rotr 18 x XOR drop_bit 3 x"

definition sigma1 :: "w32 \<Rightarrow> w32" where
  "sigma1 x = word_rotr 17 x XOR word_rotr 19 x XOR drop_bit 10 x"

text \<open>Big-endian packing of bytes into words and back.\<close>

fun words_of_bytes :: "byte list \<Rightarrow> w32 list" where
  "words_of_bytes (a # b # c # d # bs) =
     (push_bit 24 (ucast a) OR push_bit 16 (ucast b) OR push_bit 8 (ucast c) OR ucast d)
       # words_of_bytes bs"
| "words_of_bytes bs = []"

definition bytes_of_word :: "w32 \<Rightarrow> byte list" where
  "bytes_of_word w = [ucast (drop_bit 24 w), ucast (drop_bit 16 w), ucast (drop_bit 8 w), ucast w]"

definition bytes_of_length :: "nat \<Rightarrow> byte list" where
  "bytes_of_length n = map (\<lambda>i. of_nat (n div 256 ^ i)) [7, 6, 5, 4, 3, 2, 1, 0]"

definition sha256_pad :: "byte list \<Rightarrow> byte list" where
  "sha256_pad msg =
     msg @ [0x80] @ replicate ((119 - length msg mod 64) mod 64) 0
       @ bytes_of_length (8 * length msg)"

text \<open>The message schedule: sixteen words of the block extended to sixty-four.\<close>

fun schedule :: "nat \<Rightarrow> w32 list \<Rightarrow> w32 list" where
  "schedule 0 ws = ws"
| "schedule (Suc n) ws =
     (let l = length ws
      in schedule n
           (ws @ [sigma1 (ws ! (l - 2)) + ws ! (l - 7) + sigma0 (ws ! (l - 15)) + ws ! (l - 16)]))"

fun sha256_round :: "w32 list \<Rightarrow> w32 \<times> w32 \<Rightarrow> w32 list" where
  "sha256_round [a, b, c, d, e, f, g, h] (k, w) =
     (let t1 = h + Sigma1 e + Ch e f g + k + w;
          t2 = Sigma0 a + Maj a b c
      in [t1 + t2, a, b, c, d + t1, e, f, g])"
| "sha256_round st kw = st"

definition sha256_block :: "w32 list \<Rightarrow> byte list \<Rightarrow> w32 list" where
  "sha256_block hs block =
     map2 (+) hs (foldl sha256_round hs (zip K256 (schedule 48 (words_of_bytes block))))"

fun sha256_blocks :: "nat \<Rightarrow> w32 list \<Rightarrow> byte list \<Rightarrow> w32 list" where
  "sha256_blocks 0 hs bs = hs"
| "sha256_blocks (Suc n) hs bs = sha256_blocks n (sha256_block hs (take 64 bs)) (drop 64 bs)"

definition sha256 :: "byte list \<Rightarrow> byte list" where
  "sha256 msg =
     (let p = sha256_pad msg
      in concat (map bytes_of_word (sha256_blocks (length p div 64) H256 p)))"

definition hmac_sha256 :: "byte list \<Rightarrow> byte list \<Rightarrow> byte list" where
  "hmac_sha256 key msg =
     (let k0 = (if length key > 64 then sha256 key else key);
          k = k0 @ replicate (64 - length k0) 0
      in sha256 (map (\<lambda>b. b XOR 0x5c) k @ sha256 (map (\<lambda>b. b XOR 0x36) k @ msg)))"

definition hexdigit :: "nat \<Rightarrow> char" where
  "hexdigit n = ''0123456789abcdef'' ! (n mod 16)"

definition hexdigest :: "byte list \<Rightarrow> string" where
  "hexdigest bs = concat (map (\<lambda>b. [hexdigit (unat b div 16), hexdigit (unat b mod 16)]) bs)"

definition encode :: "string \<Rightarrow> byte list" where
  "encode s = map (\<lambda>c. of_nat (of_char c)) s"

subsection \<open>Python values: floats, errors, ObjectId\<close>

text \<open>
  The exceptions a handler can end with: the \<^verbatim>\<open>HTTPException\<close>s it raises itself, and
  those the libraries it calls raise and no handler catches: \<^verbatim>\<open>bson.errors.InvalidId\<close>
  from \<^verbatim>\<open>ObjectId(...)\<close>, \<^verbatim>\<open>TypeError\<close> from \<^verbatim>\<open>hmac.compare_digest\<close>, \<^verbatim>\<open>OverflowError\<close>
  from the conversion of an integer to a float and from the BSON encoding of an integer
  outside 64 bits, and pymongo's \<^verbatim>\<open>WriteError\<close> when the server refuses an update.
\<close>

datatype error =
  HTTPException (status_code: nat) (detail: string)
  | InvalidId | TypeError | OverflowError | WriteError

text \<open>
  A \<^verbatim>\<open>float\<close> is an IEEE 754 binary64 value: \<open>Dbl m e\<close> is the finite number
  \<open>m * 2 ^ e\<close>, \<open>PInf\<close> and \<open>NInf\<close> are the infinities. \<open>round53\<close> rounds an exact
  result to 53 significant bits, fewer below \<open>2 ^ - 1022\<close> where the values are
  \<open>2 ^ - 1074\<close> apart, ties to even, and gives an infinity from \<open>2 ^ 1024\<close> on. The sign
  of a zero is not represented.
\<close>

datatype double = Dbl (mant: int) (expo: int) | PInf | NInf | NaN

fun bit_length :: "nat \<Rightarrow> nat" where
  "bit_length n = (if n = 0 then 0 else Suc (bit_length (n div 2)))"

declare bit_length.simps [simp del]

definition round53 :: "int \<Rightarrow> int \<Rightarrow> double" where
  "round53 m e =
     (let k = max (int (bit_length (nat \<bar>m\<bar>)) - 53) (- 1074 - e);
          q = \<bar>m\<bar> div 2 ^ nat k;
          r = \<bar>m\<bar> mod 2 ^ nat k;
          h = 2 ^ nat (k - 1);
          m' = (if k \<le> 0 then m
                else sgn m * (if h < r \<or> (r = h \<and> odd q) then q + 1 else q));
          e' = (if k \<le> 0 then e else e + k)
      in if 1024 < int (bit_length (nat \<bar>m'\<bar>)) + e'
         then (if 0 < m' then PInf else NInf)
         else Dbl m' e')"

text \<open>
  \<^verbatim>\<open>float * int\<close> converts the integer first; the conversion raises \<^verbatim>\<open>OverflowError\<close>
  where the rounded value is no finite float.
\<close>

definition float_of_int :: "int \<Rightarrow> error + double" where
  "float_of_int n =
     (case round53 n 0 of Dbl m e \<Rightarrow> Inr (Dbl m e) | PInf \<Rightarrow> Inl OverflowError
      | NInf \<Rightarrow> Inl OverflowError | NaN \<Rightarrow> Inl OverflowError)"

definition float_sign :: "double \<Rightarrow> int" where
  "float_sign x = (case x of Dbl m e \<Rightarrow> sgn m | PInf \<Rightarrow> 1 | NInf \<Rightarrow> - 1 | NaN \<Rightarrow> 0)"

definition float_mul :: "double \<Rightarrow> double \<Rightarrow> double" where
  "float_mul x y =
     (case (x, y) of
        (Dbl m e, Dbl n f) \<Rightarrow> round53 (m * n) (e + f)
      | _ \<Rightarrow>
          if x = NaN \<or> y = NaN \<or> float_sign x * float_sign y = 0 then NaN
          else if 0 < float_sign x * float_sign y then PInf else NInf)"

definition float_add :: "double \<Rightarrow> double \<Rightarrow> double" where
  "float_add x y =
     (case (x, y) of
        (Dbl m e, Dbl n f) \<Rightarrow>
          (let l = min e f in round53 (m * 2 ^ nat (e - l) + n * 2 ^ nat (f - l)) l)
      | _ \<Rightarrow>
          if x = NaN \<or> y = NaN \<or> (x = PInf \<and> y = NInf) \<or> (x = NInf \<and> y = PInf) then NaN
          else if x = PInf \<or> y = PInf then PInf else NInf)"

text \<open>The number a finite float stands for (0 for the others), to state values.\<close>

definition float_val :: "double \<Rightarrow> rat" where
  "float_val x = (case x of Dbl m e \<Rightarrow> of_int m * 2 powi e | _ \<Rightarrow> 0)"

text \<open>
  An ObjectId is a string of bytes, twelve when the driver generates it; it is kept as
  the lower-case hexadecimal text of its bytes, which is what \<^verbatim>\<open>str(oid)\<close> prints.
  \<^verbatim>\<open>ObjectId(s)\<close> on a string takes exactly 24 characters and reads them with
  \<^verbatim>\<open>bytes.fromhex\<close>: pairs of hexadecimal digits of either case, ASCII whitespace
  between pairs skipped; any other string raises \<^verbatim>\<open>InvalidId\<close>.
\<close>

datatype oid = Oid string

definition str_oid :: "oid \<Rightarrow> string" where
  "str_oid i = (case i of Oid s \<Rightarrow> s)"

definition is_hexdigit :: "char \<Rightarrow> bool" where
  "is_hexdigit c = (c \<in> set ''0123456789abcdefABCDEF'')"

definition is_space :: "char \<Rightarrow> bool" where
  "is_space c = (c \<in> set [CHR '' '', CHR 0x09, CHR 0x0A, CHR 0x0B, CHR 0x0C, CHR 0x0D])"

definition lower_hex :: "char \<Rightarrow> char" where
  "lower_hex c =
     (if c = CHR ''A'' then CHR ''a'' else if c = CHR ''B'' then CHR ''b''
      else if c = CHR ''C'' then CHR ''c'' else if c = CHR ''D'' then CHR ''d''
      else if c = CHR ''E'' then CHR ''e'' else if c = CHR ''F'' then CHR ''f'' else c)"

fun fromhex :: "string \<Rightarrow> string option" where
  "fromhex [] = Some []"
| "fromhex [c] = (if is_space c then Some [] else None)"
| "fromhex (c # d # cs) =
     (if is_space c then fromhex (d # cs)
      else if is_hexdigit c \<and> is_hexdigit d
      then map_option (\<lambda>r. lower_hex c # lower_hex d # r) (fromhex cs)
      else None)"

definition ObjectId :: "string \<Rightarrow> error + oid" where
  "ObjectId s =
     (if length s = 24
      then (case fromhex s of None \<Rightarrow> Inl InvalidId | Some h \<Rightarrow> Inr (Oid h))
      else Inl InvalidId)"

text \<open>
  The integers a BSON document can hold are those of 64 bits; encoding another one
  raises \<^verbatim>\<open>OverflowError\<close>.
\<close>

definition int64 :: "int \<Rightarrow> bool" where
  "int64 n = (- (2 ^ 63) \<le> n \<and> n < 2 ^ 63)"

text \<open>\<^verbatim>\<open>d.get(key, default)\<close> on a field that may be absent.\<close>

definition dict_get :: "'a option \<Rightarrow> 'a \<Rightarrow> 'a" where
  "dict_get field dflt = (case field of None \<Rightarrow> dflt | Some v \<Rightarrow> v)"

subsection \<open>Password hashing (main.py, lines 24 to 33)\<close>

text \<open>
  \<^verbatim>\<open>SECRET_KEY = os.getenv("SECRET_KEY", "super-secret-key")\<close> is read once at import;
  the handlers below take its value as their first argument \<open>sk\<close>.
\<close>

definition SECRET_KEY :: "(string \<rightharpoonup> string) \<Rightarrow> string" where
  "SECRET_KEY environ = dict_get (environ ''SECRET_KEY'') ''super-secret-key''"

definition hash_password :: "string \<Rightarrow> string \<Rightarrow> string" where
  "hash_password sk password = hexdigest (hmac_sha256 (encode sk) (encode password))"

text \<open>
  \<^verbatim>\<open>hmac.compare_digest\<close> on two \<^verbatim>\<open>str\<close> arguments compares them when both are ASCII and
  raises \<^verbatim>\<open>TypeError\<close> otherwise.
\<close>

definition is_ascii :: "string \<Rightarrow> bool" where
  "is_ascii s = list_all (\<lambda>c. (of_char c :: nat) < 128) s"

definition compare_digest :: "string \<Rightarrow> string \<Rightarrow> error + bool" where
  "compare_digest a b = (if is_ascii a \<and> is_ascii b then Inr (a = b) else Inl TypeError)"

definition verify_password :: "string \<Rightarrow> string \<Rightarrow> string \<Rightarrow> error + bool" where
  "verify_password sk password password_hash =
     compare_digest (hash_password sk password) password_hash"

subsection \<open>Documents and the document store\<close>

text \<open>
  The three collections hold documents whose fields, when present, have the types the
  write paths of main.py store; a field the code reads with \<^verbatim>\<open>.get\<close> is an option,
  \<open>None\<close> when the document lacks it. A collection is the list of its documents in
  insertion order. An integer field is an \<^typ>\<open>int\<close>; every write checks that what it
  stores is within 64 bits, as the encoder and the server do. A timestamp is a reading
  of the clock as a number.
\<close>

record user_doc =
  u_id :: oid
  u_name :: "string option"
  u_email :: "string option"
  u_password_hash :: "string option"
  u_role :: "string option"
  u_created_at :: "nat option"
  u_updated_at :: "nat option"

record product_doc =
  p_id :: oid
  p_name :: "string option"
  p_description :: "string option"
  p_price :: "double option"
  p_image :: "string option"
  p_stock :: "int option"

text \<open>A stored line item is the dictionary \<^verbatim>\<open>model_dump()\<close> returned, key by key.\<close>

datatype pyval = PyStr string | PyInt int | PyFloat double

record order_doc =
  o_id :: oid
  o_user_id :: string
  o_items :: "(string \<times> pyval) list list"
  o_total :: double
  o_status :: string

record database =
  user_coll :: "user_doc list"
  product_coll :: "product_doc list"
  order_coll :: "order_doc list"

text \<open>
  The pymongo calls the handlers make. \<^verbatim>\<open>find_one\<close> returns the first document that
  matches, \<^verbatim>\<open>update_one\<close> changes the first document that matches, \<^verbatim>\<open>update_many\<close>
  changes every one, \<^verbatim>\<open>insert_one\<close> appends.
\<close>

definition find_one :: "('d \<Rightarrow> bool) \<Rightarrow> 'd list \<Rightarrow> 'd option" where
  "find_one flt coll = List.find flt coll"

fun update_one :: "('d \<Rightarrow> bool) \<Rightarrow> ('d \<Rightarrow> 'd) \<Rightarrow> 'd list \<Rightarrow> 'd list" where
  "update_one flt upd [] = []"
| "update_one flt upd (d # ds) = (if flt d then upd d # ds else d # update_one flt upd ds)"

definition update_many :: "('d \<Rightarrow> bool) \<Rightarrow> ('d \<Rightarrow> 'd) \<Rightarrow> 'd list \<Rightarrow> 'd list" where
  "update_many flt upd coll = map (\<lambda>d. if flt d then upd d else d) coll"

definition insert_one :: "'d \<Rightarrow> 'd list \<Rightarrow> 'd list" where
  "insert_one d coll = coll @ [d]"

text \<open>
  Modelled from the spec: \<^verbatim>\<open>create_document\<close> of the \<^verbatim>\<open>database\<close> module, which is not
  among the sources. The spec's persistence accessor inserts the record into the named
  collection under a system-assigned identifier and the handlers return that identifier
  as the created record's id. The identifier the store assigns is the argument
  \<open>new_id\<close>; \<open>data\<close> builds the stored document around it and \<open>ints\<close> lists the
  integers the document holds: as every insert of the driver, this one encodes the
  document first and raises \<^verbatim>\<open>OverflowError\<close>, inserting nothing, when one of them is
  outside 64 bits.
\<close>

definition create_document ::
  "oid \<Rightarrow> ('d \<Rightarrow> int list) \<Rightarrow> (oid \<Rightarrow> 'd) \<Rightarrow> 'd list \<Rightarrow> error + string \<times> 'd list" where
  "create_document new_id ints data coll =
     (if list_all int64 (ints (data new_id))
      then Inr (str_oid new_id, insert_one (data new_id) coll)
      else Inl OverflowError)"

text \<open>
  The integers of a document of each collection: none in a user, the stock of a product,
  the quantities of the line items of an order.
\<close>

definition user_ints :: "user_doc \<Rightarrow> int list" where
  "user_ints d = []"

definition product_ints :: "product_doc \<Rightarrow> int list" where
  "product_ints d = (case p_stock d of None \<Rightarrow> [] | Some n \<Rightarrow> [n])"

definition pyval_ints :: "pyval \<Rightarrow> int list" where
  "pyval_ints v = (case v of PyInt n \<Rightarrow> [n] | PyStr s \<Rightarrow> [] | PyFloat x \<Rightarrow> [])"

definition order_ints :: "order_doc \<Rightarrow> int list" where
  "order_ints d = concat (map (\<lambda>item. concat (map (\<lambda>kv. pyval_ints (snd kv)) item)) (o_items d))"

subsection \<open>Request and response schemas (main.py, lines 37 to 82 and 190 to 192)\<close>

record SignupRequest =
  signup_name :: string
  signup_email :: string
  signup_password :: string

record LoginRequest =
  login_email :: string
  login_password :: string

record UserPublic =
  up_id :: string
  up_name :: string
  up_email :: "string option"
  up_role :: string

record ProductIn =
  pi_name :: string
  pi_description :: "string option"
  pi_price :: double
  pi_image :: "string option"
  pi_stock :: int

record ProductOut = ProductIn +
  po_id :: string

record OrderItemIn =
  product_id :: string
  quantity :: int

record OrderOut =
  oo_id :: string
  oo_user_id :: string
  oo_total :: double
  oo_status :: string

record AdminCreateProductRequest =
  req_product :: ProductIn
  req_credentials :: LoginRequest

record OrderCreate =
  user_id :: string
  items :: "OrderItemIn list"

definition product_model_dump :: "ProductIn \<Rightarrow> oid \<Rightarrow> product_doc" where
  "product_model_dump p i =
     \<lparr>p_id = i, p_name = Some (pi_name p), p_description = pi_description p,
      p_price = Some (pi_price p), p_image = pi_image p, p_stock = Some (pi_stock p)\<rparr>"

definition item_model_dump :: "OrderItemIn \<Rightarrow> (string \<times> pyval) list" where
  "item_model_dump i = [(''product_id'', PyStr (product_id i)), (''quantity'', PyInt (quantity i))]"

subsection \<open>Collection schemas (schemas.py)\<close>

text \<open>
  schemas.py declares one model per collection; main.py imports none of them. \<^verbatim>\<open>Product\<close>
  (lines 20 to 25) requires a price and bounds price and stock below by 0 (\<^verbatim>\<open>ge=0\<close>),
  stock being 0 when absent; \<^verbatim>\<open>OrderItem\<close> (lines 27 to 31) declares the keys of a stored
  line item.
\<close>

definition Product_bounds :: "product_doc \<Rightarrow> bool" where
  "Product_bounds p =
     ((case p_price p of
         None \<Rightarrow> False
       | Some x \<Rightarrow> (case x of Dbl m e \<Rightarrow> 0 \<le> m | PInf \<Rightarrow> True | NInf \<Rightarrow> False | NaN \<Rightarrow> False))
      \<and> 0 \<le> dict_get (p_stock p) 0)"

definition OrderItem_keys :: "string list" where
  "OrderItem_keys = [''product_id'', ''name'', ''price'', ''quantity'']"

subsection \<open>Startup seeding (main.py, lines 86 to 109)\<close>

definition ADMIN_EMAIL :: string where
  "ADMIN_EMAIL = ''deeptesh2006@gmail.com''"

definition ADMIN_PASSWORD :: string where
  "ADMIN_PASSWORD = ''deep1591''"

text \<open>The filter \<^verbatim>\<open>{"email": {"$ne": ADMIN_EMAIL}, "role": "admin"}\<close>.\<close>

definition other_admin :: "user_doc \<Rightarrow> bool" where
  "other_admin u = (u_email u \<noteq> Some ADMIN_EMAIL \<and> u_role u = Some ''admin'')"

text \<open>The filter \<^verbatim>\<open>{"email": e}\<close>.\<close>

definition has_email :: "string \<Rightarrow> user_doc \<Rightarrow> bool" where
  "has_email e u = (u_email u = Some e)"

text \<open>
  \<open>new_id\<close> is the identifier the store assigns on the insert, \<open>now1\<close> and \<open>now2\<close>
  are the two readings of \<^verbatim>\<open>datetime.now\<close>.
\<close>

definition seed_admin :: "string \<Rightarrow> oid \<Rightarrow> nat \<Rightarrow> nat \<Rightarrow> database option \<Rightarrow> database option" where
  "seed_admin sk new_id now1 now2 dbo =
     (case dbo of
        None \<Rightarrow> None
      | Some db \<Rightarrow>
          (case find_one (has_email ADMIN_EMAIL) (user_coll db) of
             Some existing \<Rightarrow>
               Some (db\<lparr>user_coll :=
                 update_one (has_email ADMIN_EMAIL)
                   (\<lambda>u. u\<lparr>u_role := Some ''admin'',
                           u_password_hash := Some (hash_password sk ADMIN_PASSWORD)\<rparr>)
                   (update_many other_admin (\<lambda>u. u\<lparr>u_role := Some ''user''\<rparr>) (user_coll db))\<rparr>)
           | None \<Rightarrow>
               Some (db\<lparr>user_coll :=
                 update_many other_admin (\<lambda>u. u\<lparr>u_role := Some ''user''\<rparr>)
                   (insert_one
                      \<lparr>u_id = new_id, u_name = Some ''Admin'', u_email = Some ADMIN_EMAIL,
                       u_password_hash = Some (hash_password sk ADMIN_PASSWORD),
                       u_role = Some ''admin'', u_created_at = Some now1,
                       u_updated_at = Some now2\<rparr>
                      (user_coll db))\<rparr>)))"

subsection \<open>Signup and login (main.py, lines 117 to 156)\<close>

text \<open>
  A handler returns what the request ends with, the response or the exception, and the
  store as the request leaves it.
\<close>

definition user_signup ::
  "string \<Rightarrow> oid \<Rightarrow> SignupRequest \<Rightarrow> database option \<Rightarrow> (error + UserPublic) \<times> database option" where
  "user_signup sk new_id payload dbo =
     (case dbo of
        None \<Rightarrow> (Inl (HTTPException 500 ''Database not available''), None)
      | Some db \<Rightarrow>
          if signup_email payload = ADMIN_EMAIL
          then (Inl (HTTPException 400 ''This email is reserved for admin''), Some db)
          else
            (case find_one (has_email (signup_email payload)) (user_coll db) of
               Some found \<Rightarrow> (Inl (HTTPException 400 ''Email already registered''), Some db)
             | None \<Rightarrow>
                 (case create_document new_id user_ints
                         (\<lambda>i. \<lparr>u_id = i, u_name = Some (signup_name payload),
                               u_email = Some (signup_email payload),
                               u_password_hash = Some (hash_password sk (signup_password payload)),
                               u_role = Some ''user'', u_created_at = None, u_updated_at = None\<rparr>)
                         (user_coll db) of
                    Inl e \<Rightarrow> (Inl e, Some db)
                  | Inr (uid, coll) \<Rightarrow>
                      (Inr \<lparr>up_id = uid, up_name = signup_name payload,
                            up_email = Some (signup_email payload), up_role = ''user''\<rparr>,
                       Some (db\<lparr>user_coll := coll\<rparr>)))))"

definition user_login ::
  "string \<Rightarrow> LoginRequest \<Rightarrow> database option \<Rightarrow> (error + UserPublic) \<times> database option" where
  "user_login sk payload dbo =
     (case dbo of
        None \<Rightarrow> (Inl (HTTPException 500 ''Database not available''), None)
      | Some db \<Rightarrow>
          (case find_one (has_email (login_email payload)) (user_coll db) of
             None \<Rightarrow> (Inl (HTTPException 401 ''Invalid credentials''), Some db)
           | Some user \<Rightarrow>
               (case verify_password sk (login_password payload)
                       (dict_get (u_password_hash user) []) of
                  Inl e \<Rightarrow> (Inl e, Some db)
                | Inr ok \<Rightarrow>
                    if \<not> ok then (Inl (HTTPException 401 ''Invalid credentials''), Some db)
                    else if u_role user \<noteq> Some ''user''
                    then (Inl (HTTPException 403 ''Not a user account''), Some db)
                    else
                      (Inr \<lparr>up_id = str_oid (u_id user), up_name = dict_get (u_name user) [],
                            up_email = u_email user, up_role = ''user''\<rparr>,
                       Some db))))"

definition admin_login ::
  "string \<Rightarrow> LoginRequest \<Rightarrow> database option \<Rightarrow> (error + UserPublic) \<times> database option" where
  "admin_login sk payload dbo =
     (case dbo of
        None \<Rightarrow> (Inl (HTTPException 500 ''Database not available''), None)
      | Some db \<Rightarrow>
          (case find_one (has_email (login_email payload)) (user_coll db) of
             None \<Rightarrow> (Inl (HTTPException 401 ''Invalid credentials''), Some db)
           | Some user \<Rightarrow>
               (case verify_password sk (login_password payload)
                       (dict_get (u_password_hash user) []) of
                  Inl e \<Rightarrow> (Inl e, Some db)
                | Inr ok \<Rightarrow>
                    if \<not> ok then (Inl (HTTPException 401 ''Invalid credentials''), Some db)
                    else if login_email payload \<noteq> ADMIN_EMAIL \<or> u_role user \<noteq> Some ''admin''
                    then (Inl (HTTPException 403 ''Admin access denied''), Some db)
                    else
                      (Inr \<lparr>up_id = str_oid (u_id user), up_name = dict_get (u_name user) ''Admin'',
                            up_email = u_email user, up_role = ''admin''\<rparr>,
                       Some db))))"

subsection \<open>Admin product creation (main.py, lines 160 to 169)\<close>

definition create_product ::
  "string \<Rightarrow> oid \<Rightarrow> AdminCreateProductRequest \<Rightarrow> database option
     \<Rightarrow> (error + ProductOut) \<times> database option" where
  "create_product sk new_id req dbo =
     (case dbo of
        None \<Rightarrow> (Inl (HTTPException 500 ''Database not available''), None)
      | Some db \<Rightarrow>
          (let creds = req_credentials req;
               denied = (Inl (HTTPException 403 ''Admin access denied''), Some db)
           in case find_one (has_email (login_email creds)) (user_coll db) of
                None \<Rightarrow> denied
              | Some admin \<Rightarrow>
                  (case verify_password sk (login_password creds)
                          (dict_get (u_password_hash admin) []) of
                     Inl e \<Rightarrow> (Inl e, Some db)
                   | Inr ok \<Rightarrow>
                       if \<not> ok \<or> login_email creds \<noteq> ADMIN_EMAIL \<or> u_role admin \<noteq> Some ''admin''
                       then denied
                       else
                         (case create_document new_id product_ints
                                 (product_model_dump (req_product req)) (product_coll db) of
                            Inl e \<Rightarrow> (Inl e, Some db)
                          | Inr (pid, coll) \<Rightarrow>
                              (Inr (ProductIn.extend (req_product req) (ProductOut.fields pid)),
                               Some (db\<lparr>product_coll := coll\<rparr>))))))"

subsection \<open>Order placement (main.py, lines 195 to 217)\<close>

text \<open>
  The first loop: fetch, the two checks and the running total, item by item. It reads
  the products and writes nothing. \<^verbatim>\<open>float(prod.get("price", 0))\<close> of a product without
  a price is \<open>0.0\<close>.
\<close>

definition has_id :: "oid \<Rightarrow> product_doc \<Rightarrow> bool" where
  "has_id i p = (p_id p = i)"

definition format_name :: "string option \<Rightarrow> string" where
  "format_name n = (case n of None \<Rightarrow> ''None'' | Some s \<Rightarrow> s)"

fun check_items :: "product_doc list \<Rightarrow> OrderItemIn list \<Rightarrow> double \<Rightarrow> error + double" where
  "check_items prods [] tot = Inr tot"
| "check_items prods (item # rest) tot =
     (case ObjectId (product_id item) of
        Inl e \<Rightarrow> Inl e
      | Inr i \<Rightarrow>
          (case find_one (has_id i) prods of
             None \<Rightarrow> Inl (HTTPException 404 ''Product not found'')
           | Some prd \<Rightarrow>
               if dict_get (p_stock prd) 0 < quantity item
               then Inl (HTTPException 400 (''Insufficient stock for '' @ format_name (p_name prd)))
               else
                 (case float_of_int (quantity item) of
                    Inl e \<Rightarrow> Inl e
                  | Inr q \<Rightarrow>
                      check_items prods rest
                        (float_add tot (float_mul (dict_get (p_price prd) (Dbl 0 0)) q)))))"

text \<open>\<^verbatim>\<open>{"$inc": {"stock": n}}\<close>: an absent field is created with the value \<open>n\<close>.\<close>

definition inc_stock :: "int \<Rightarrow> product_doc \<Rightarrow> product_doc" where
  "inc_stock n p = p\<lparr>p_stock := Some (dict_get (p_stock p) 0 + n)\<rparr>"

text \<open>
  \<^verbatim>\<open>update_one({"_id": i}, {"$inc": {"stock": n}})\<close>: the driver encodes \<open>n\<close> and raises
  \<^verbatim>\<open>OverflowError\<close> when it is outside 64 bits; the server refuses an increment whose
  result is outside 64 bits, which the driver raises as \<^verbatim>\<open>WriteError\<close>. Either way the
  collection is as it was before the call.
\<close>

definition update_one_inc :: "oid \<Rightarrow> int \<Rightarrow> product_doc list \<Rightarrow> error + product_doc list" where
  "update_one_inc i n prods =
     (if int64 n
      then (case find_one (has_id i) prods of
              None \<Rightarrow> Inr prods
            | Some p \<Rightarrow>
                if int64 (dict_get (p_stock p) 0 + n)
                then Inr (update_one (has_id i) (inc_stock n) prods)
                else Inl WriteError)
      else Inl OverflowError)"

text \<open>
  The second loop: one \<^verbatim>\<open>update_one\<close> per item. An exception leaves the updates made
  before it in place.
\<close>

fun reduce_stock :: "product_doc list \<Rightarrow> OrderItemIn list \<Rightarrow> error option \<times> product_doc list" where
  "reduce_stock prods [] = (None, prods)"
| "reduce_stock prods (item # rest) =
     (case ObjectId (product_id item) of
        Inl e \<Rightarrow> (Some e, prods)
      | Inr i \<Rightarrow>
          (case update_one_inc i (- quantity item) prods of
             Inl e \<Rightarrow> (Some e, prods)
           | Inr prods' \<Rightarrow> reduce_stock prods' rest))"

definition place_order ::
  "oid \<Rightarrow> OrderCreate \<Rightarrow> database option \<Rightarrow> (error + OrderOut) \<times> database option" where
  "place_order new_id order dbo =
     (case dbo of
        None \<Rightarrow> (Inl (HTTPException 500 ''Database not available''), None)
      | Some db \<Rightarrow>
          (case check_items (product_coll db) (items order) (Dbl 0 0) of
             Inl e \<Rightarrow> (Inl e, Some db)
           | Inr tot \<Rightarrow>
               (case reduce_stock (product_coll db) (items order) of
                  (Some e, prods) \<Rightarrow> (Inl e, Some (db\<lparr>product_coll := prods\<rparr>))
                | (None, prods) \<Rightarrow>
                    (case create_document new_id order_ints
                            (\<lambda>i. \<lparr>o_id = i, o_user_id = user_id order,
                                  o_items = map item_model_dump (items order),
                                  o_total = tot, o_status = ''placed''\<rparr>)
                            (order_coll db) of
                       Inl e \<Rightarrow> (Inl e, Some (db\<lparr>product_coll := prods\<rparr>))
                     | Inr (oid, coll) \<Rightarrow>
                         (Inr \<lparr>oo_id = oid, oo_user_id = user_id order, oo_total = tot,
                               oo_status = ''placed''\<rparr>,
                          Some (db\<lparr>product_coll := prods, order_coll := coll\<rparr>))))))"

subsection \<open>Vocabulary of the properties\<close>

text \<open>The records of the user collection that hold role \<^verbatim>\<open>admin\<close>.\<close>

definition admin_records :: "database \<Rightarrow> user_doc list" where
  "admin_records db = filter (\<lambda>u. u_role u = Some ''admin'') (user_coll db)"

text \<open>The records of the user collection that carry the reserved admin email.\<close>

definition reserved_records :: "database \<Rightarrow> user_doc list" where
  "reserved_records db = filter (has_email ADMIN_EMAIL) (user_coll db)"

text \<open>The store with no document in any collection.\<close>

definition empty_db :: database where
  "empty_db = \<lparr>user_coll = [], product_coll = [], order_coll = []\<rparr>"

text \<open>Sample identifiers and documents for the concrete scenarios.\<close>

definition oid_a :: oid where
  "oid_a = Oid ''0123456789abcdef00000001''"

definition oid_b :: oid where
  "oid_b = Oid ''0123456789abcdef00000002''"

definition oid_c :: oid where
  "oid_c = Oid ''0123456789abcdef00000003''"

definition sample_user :: "oid \<Rightarrow> string \<Rightarrow> string \<Rightarrow> string \<Rightarrow> user_doc" where
  "sample_user i e h r =
     \<lparr>u_id = i, u_name = Some ''Sam'', u_email = Some e, u_password_hash = Some h,
      u_role = Some r, u_created_at = None, u_updated_at = None\<rparr>"

definition sample_product :: "oid \<Rightarrow> double \<Rightarrow> int \<Rightarrow> product_doc" where
  "sample_product i price stock =
     \<lparr>p_id = i, p_name = Some ''Mango'', p_description = None, p_price = Some price,
      p_image = None, p_stock = Some stock\<rparr>"

text \<open>The document a successful signup stores and the dictionary it returns.\<close>

definition signup_doc :: "string \<Rightarrow> oid \<Rightarrow> SignupRequest \<Rightarrow> user_doc" where
  "signup_doc sk i payload =
     \<lparr>u_id = i, u_name = Some (signup_name payload), u_email = Some (signup_email payload),
      u_password_hash = Some (hash_password sk (signup_password payload)),
      u_role = Some ''user'', u_created_at = None, u_updated_at = None\<rparr>"

definition signup_view :: "oid \<Rightarrow> SignupRequest \<Rightarrow> UserPublic" where
  "signup_view i payload =
     \<lparr>up_id = str_oid i, up_name = signup_name payload,
      up_email = Some (signup_email payload), up_role = ''user''\<rparr>"

text \<open>Sample requests and a sample store with one product of price 1.0.\<close>

definition sample_signup :: "string \<Rightarrow> string \<Rightarrow> SignupRequest" where
  "sample_signup e pw = \<lparr>signup_name = ''Sam'', signup_email = e, signup_password = pw\<rparr>"

definition sample_store :: "int \<Rightarrow> database" where
  "sample_store stock =
     \<lparr>user_coll = [], product_coll = [sample_product oid_a (Dbl 1 0) stock], order_coll = []\<rparr>"

definition sample_order :: "int \<Rightarrow> OrderCreate" where
  "sample_order q =
     \<lparr>user_id = ''u1'', items = [\<lparr>product_id = ''0123456789ABCDEF00000001'', quantity = q\<rparr>]\<rparr>"

section \<open>Properties\<close>

subsection \<open>Auxiliary facts: digests and the store\<close>

lemma hexdigit_ascii: "(of_char (hexdigit n) :: nat) < 128"
proof -
  have "\<forall>c\<in>set ''0123456789abcdef''. (of_char c :: nat) < 128" by simp
  moreover have "hexdigit n \<in> set ''0123456789abcdef''"
    unfolding hexdigit_def by (rule nth_mem) simp
  ultimately show ?thesis by blast
qed

lemma is_ascii_hexdigest: "is_ascii (hexdigest bs)"
  by (induction bs) (simp_all add: is_ascii_def hexdigest_def hexdigit_ascii)

lemma is_ascii_hash_password: "is_ascii (hash_password sk p)"
  by (simp add: hash_password_def is_ascii_hexdigest)

lemma verify_password_ascii:
  "is_ascii h \<Longrightarrow> verify_password sk p h = Inr (hash_password sk p = h)"
  by (simp add: verify_password_def compare_digest_def is_ascii_hash_password)

lemma verify_password_digest:
  "verify_password sk p (hash_password sk q) = Inr (hash_password sk p = hash_password sk q)"
  by (simp add: verify_password_ascii is_ascii_hash_password)

lemma find_one_append:
  "find_one P (xs @ ys) = (case find_one P xs of Some x \<Rightarrow> Some x | None \<Rightarrow> find_one P ys)"
  by (induction xs) (simp_all add: find_one_def)

lemma find_one_None: "find_one P xs = None \<longleftrightarrow> (\<forall>x\<in>set xs. \<not> P x)"
  by (auto simp: find_one_def find_None_iff)

lemma find_one_Some_P: "find_one P xs = Some x \<Longrightarrow> P x \<and> x \<in> set xs"
  by (auto simp: find_one_def find_Some_iff)

lemma update_one_id: "\<forall>x\<in>set xs. P x \<longrightarrow> f x = x \<Longrightarrow> update_one P f xs = xs"
  by (induction xs) auto

lemma update_many_id: "\<forall>x\<in>set xs. P x \<longrightarrow> f x = x \<Longrightarrow> update_many P f xs = xs"
  by (simp add: update_many_def map_idI)

subsection \<open>Auxiliary facts: the concrete scenarios\<close>

text \<open>
  The sample product ids as \<^verbatim>\<open>ObjectId(...)\<close> reads them, in either case of the letters.
\<close>

lemma ObjectId_sample: "ObjectId ''0123456789ABCDEF00000001'' = Inr oid_a"
  by (simp add: ObjectId_def is_hexdigit_def is_space_def lower_hex_def oid_a_def)

lemma ObjectId_sample_lower: "ObjectId ''0123456789abcdef00000001'' = Inr oid_a"
  by (simp add: ObjectId_def is_hexdigit_def is_space_def lower_hex_def oid_a_def)

lemma ObjectId_sample_b: "ObjectId ''0123456789abcdef00000002'' = Inr oid_b"
  by (simp add: ObjectId_def is_hexdigit_def is_space_def lower_hex_def oid_b_def)

text \<open>
  The conversions and totals of the sample orders, as the float operations compute
  them.
\<close>

lemma float_of_int_examples:
  "float_of_int 1 = Inr (Dbl 1 0)"
  "float_of_int 3 = Inr (Dbl 3 0)"
  "float_of_int 6 = Inr (Dbl 6 0)"
  "float_of_int (- 1) = Inr (Dbl (- 1) 0)"
  by code_simp+

lemma float_total_example:
  "float_add (Dbl 0 0) (float_mul (Dbl 5 (- 1)) (Dbl 3 0)) = Dbl 15 (- 1)"
  by code_simp

lemma float_val_example: "float_val (Dbl 5 (- 1)) = 5 / 2" "float_val (Dbl 15 (- 1)) = 15 / 2"
  by (simp_all add: float_val_def power_int_minus)

lemma float_unit_examples:
  "float_add (Dbl 0 0) (float_mul (Dbl 1 0) (Dbl 3 0)) = Dbl 3 0"
  "float_add (Dbl 3 0) (float_mul (Dbl 1 0) (Dbl 3 0)) = Dbl 6 0"
  by code_simp+

text \<open>
  An integer of 1025 bits is beyond the floats: its conversion raises \<^verbatim>\<open>OverflowError\<close>,
  while the least 64-bit integer converts.
\<close>

lemma bit_length_pow2: "bit_length (2 ^ n) = Suc n"
proof (induction n)
  case 0
  show ?case by (simp add: bit_length.simps[of "Suc 0"] bit_length.simps[of 0])
next
  case (Suc n)
  have "bit_length (2 ^ Suc n) = Suc (bit_length (2 ^ n))"
    by (subst bit_length.simps) simp
  with Suc show ?case by simp
qed

lemma round53_neg_pow2:
  assumes "1024 \<le> n"
  shows "round53 (- (2 ^ n)) 0 = NInf"
proof -
  define m where "m = n - 52"
  with assms have n: "n = m + 52" and m: "972 \<le> m" by simp_all
  have b: "bit_length (nat \<bar>- (2 ^ n :: int)\<bar>) = Suc n"
    by (simp add: nat_power_eq bit_length_pow2)
  have k: "max (int (Suc n) - 53) (- 1074 - 0) = int m"
    using n by simp
  have q: "\<bar>- (2 ^ n :: int)\<bar> div 2 ^ m = 2 ^ 52"
    unfolding n by (simp add: power_add)
  have r: "\<bar>- (2 ^ n :: int)\<bar> mod 2 ^ m = 0"
    unfolding n by (simp add: power_add)
  have b2: "bit_length (nat \<bar>- 1 * (2 ^ 52 :: int)\<bar>) = 53"
    using bit_length_pow2[of 52] by (simp add: nat_power_eq)
  have s: "sgn (- (2 ^ n :: int)) = - 1"
    by simp
  have f: "\<not> int m \<le> 0" "1024 < 53 + int m"
    using m by simp_all
  show ?thesis
    unfolding round53_def b k Let_def nat_int q r s
    using f b2 by simp
qed

lemma float_of_int_overflow: "float_of_int (- (2 ^ 1024)) = Inl OverflowError"
  using round53_neg_pow2[of 1024] by (simp add: float_of_int_def)

lemma round53_neg_pow2_finite:
  assumes "53 \<le> n" and "n < 1024"
  shows "round53 (- (2 ^ n)) 0 = Dbl (- (2 ^ 52)) (int n - 52)"
proof -
  define m where "m = n - 52"
  with assms have n: "n = m + 52" and m: "1 \<le> m" "m < 972" by simp_all
  have b: "bit_length (nat \<bar>- (2 ^ n :: int)\<bar>) = Suc n"
    by (simp add: nat_power_eq bit_length_pow2)
  have k: "max (int (Suc n) - 53) (- 1074 - 0) = int m"
    using n by simp
  have q: "\<bar>- (2 ^ n :: int)\<bar> div 2 ^ m = 2 ^ 52"
    unfolding n by (simp add: power_add)
  have r: "\<bar>- (2 ^ n :: int)\<bar> mod 2 ^ m = 0"
    unfolding n by (simp add: power_add)
  have b2: "bit_length (nat \<bar>- 1 * (2 ^ 52 :: int)\<bar>) = 53"
    using bit_length_pow2[of 52] by (simp add: nat_power_eq)
  have s: "sgn (- (2 ^ n :: int)) = - 1"
    by simp
  have f: "\<not> int m \<le> 0" "\<not> 1024 < 53 + int m" "int n - 52 = int m"
    using m n by simp_all
  show ?thesis
    unfolding round53_def b k Let_def nat_int q r s
    using f b2 by simp
qed

lemma float_of_int_least_int64: "float_of_int (- (2 ^ 63)) = Inr (Dbl (- (2 ^ 52)) 11)"
  using round53_neg_pow2_finite[of 63] by (simp add: float_of_int_def)

lemma sample_check_items:
  "check_items (product_coll (sample_store 5)) (items (sample_order 3)) (Dbl 0 0) = Inr (Dbl 3 0)"
  by (simp add: sample_store_def sample_order_def ObjectId_sample find_one_def has_id_def
      sample_product_def dict_get_def float_of_int_examples float_unit_examples)

subsection \<open>Startup seeding\<close>

lemma demote_no_reserved:
  "\<forall>u\<in>set us. \<not> has_email ADMIN_EMAIL u \<Longrightarrow>
   filter (\<lambda>u. u_role u = Some ''admin'')
     (update_many other_admin (\<lambda>u. u\<lparr>u_role := Some ''user''\<rparr>) us) = [] \<and>
   filter (has_email ADMIN_EMAIL)
     (update_many other_admin (\<lambda>u. u\<lparr>u_role := Some ''user''\<rparr>) us) = []"
  by (induction us) (auto simp: update_many_def other_admin_def has_email_def)

lemma update_many_reserved:
  "has_email ADMIN_EMAIL u \<Longrightarrow>
   update_many other_admin f (u # us) = u # update_many other_admin f us"
  by (simp add: update_many_def other_admin_def has_email_def)

lemma seed_existing:
  assumes "find_one (has_email ADMIN_EMAIL) us = Some r"
    and "length (filter (has_email ADMIN_EMAIL) us) \<le> 1"
  shows "filter (\<lambda>u. u_role u = Some ''admin'')
           (update_one (has_email ADMIN_EMAIL)
              (\<lambda>u. u\<lparr>u_role := Some ''admin'', u_password_hash := Some h\<rparr>)
              (update_many other_admin (\<lambda>u. u\<lparr>u_role := Some ''user''\<rparr>) us))
         = [r\<lparr>u_role := Some ''admin'', u_password_hash := Some h\<rparr>]
       \<and> filter (has_email ADMIN_EMAIL)
           (update_one (has_email ADMIN_EMAIL)
              (\<lambda>u. u\<lparr>u_role := Some ''admin'', u_password_hash := Some h\<rparr>)
              (update_many other_admin (\<lambda>u. u\<lparr>u_role := Some ''user''\<rparr>) us))
         = [r\<lparr>u_role := Some ''admin'', u_password_hash := Some h\<rparr>]"
  using assms
proof (induction us)
  case Nil
  then show ?case by (simp add: find_one_def)
next
  case (Cons u us)
  show ?case
  proof (cases "has_email ADMIN_EMAIL u")
    case True
    with Cons.prems have r: "r = u" and none: "\<forall>x\<in>set us. \<not> has_email ADMIN_EMAIL x"
      by (auto simp: find_one_def filter_empty_conv)
    from True have "has_email ADMIN_EMAIL (u\<lparr>u_role := Some ''admin'', u_password_hash := Some h\<rparr>)"
      by (simp add: has_email_def)
    with True r demote_no_reserved[OF none] show ?thesis
      by (simp add: update_many_reserved)
  next
    case False
    with Cons.prems have "find_one (has_email ADMIN_EMAIL) us = Some r"
      and "length (filter (has_email ADMIN_EMAIL) us) \<le> 1"
      by (auto simp: find_one_def)
    from Cons.IH[OF this] False show ?thesis
      by (auto simp: update_many_def other_admin_def has_email_def)
  qed
qed

lemma seed_admin_once:
  assumes "length (reserved_records db) \<le> 1"
  shows "\<exists>db1 r. seed_admin sk i a b (Some db) = Some db1 \<and> admin_records db1 = [r]
           \<and> reserved_records db1 = [r] \<and> u_role r = Some ''admin''
           \<and> u_password_hash r = Some (hash_password sk ADMIN_PASSWORD)"
proof (cases "find_one (has_email ADMIN_EMAIL) (user_coll db)")
  case None
  then have "\<forall>u\<in>set (user_coll db). \<not> has_email ADMIN_EMAIL u"
    by (simp add: find_one_None)
  from demote_no_reserved[OF this] None show ?thesis
    by (simp add: seed_admin_def admin_records_def reserved_records_def insert_one_def
        update_many_def other_admin_def has_email_def)
next
  case (Some r)
  from seed_existing[OF Some, of "hash_password sk ADMIN_PASSWORD"] assms Some show ?thesis
    by (simp add: seed_admin_def admin_records_def reserved_records_def)
qed

lemma user_doc_same:
  "u_role r = Some a \<Longrightarrow> u_password_hash r = Some h \<Longrightarrow>
   r\<lparr>u_role := Some a, u_password_hash := Some h\<rparr> = (r :: user_doc)"
  by (cases r) simp

lemma seed_admin_again:
  assumes a: "admin_records db = [r]" and e: "reserved_records db = [r]"
    and h: "u_password_hash r = Some (hash_password sk ADMIN_PASSWORD)"
  shows "seed_admin sk i a b (Some db) = Some db"
proof -
  have "r \<in> set (admin_records db)" "r \<in> set (reserved_records db)"
    using a e by simp_all
  then have r: "r \<in> set (user_coll db)" "u_role r = Some ''admin''" "has_email ADMIN_EMAIL r"
    by (simp_all add: admin_records_def reserved_records_def)
  have "\<forall>u\<in>set (user_coll db). other_admin u \<longrightarrow> u\<lparr>u_role := Some ''user''\<rparr> = u"
  proof (intro ballI impI)
    fix u assume u: "u \<in> set (user_coll db)" and o: "other_admin u"
    then have "u \<in> set (admin_records db)" by (simp add: admin_records_def other_admin_def)
    with a have "u = r" by simp
    with o r(3) have False by (simp add: other_admin_def has_email_def)
    then show "u\<lparr>u_role := Some ''user''\<rparr> = u" ..
  qed
  then have m: "update_many other_admin (\<lambda>u. u\<lparr>u_role := Some ''user''\<rparr>) (user_coll db)
      = user_coll db"
    by (rule update_many_id)
  have "\<forall>u\<in>set (user_coll db). has_email ADMIN_EMAIL u \<longrightarrow>
          u\<lparr>u_role := Some ''admin'', u_password_hash := Some (hash_password sk ADMIN_PASSWORD)\<rparr> = u"
  proof (intro ballI impI)
    fix u assume u: "u \<in> set (user_coll db)" and o: "has_email ADMIN_EMAIL u"
    then have "u \<in> set (reserved_records db)" by (simp add: reserved_records_def)
    with e have "u = r" by simp
    with r(2) h
    show "u\<lparr>u_role := Some ''admin'', u_password_hash := Some (hash_password sk ADMIN_PASSWORD)\<rparr> = u"
      by (simp only: user_doc_same)
  qed
  then have o: "update_one (has_email ADMIN_EMAIL)
      (\<lambda>u. u\<lparr>u_role := Some ''admin'', u_password_hash := Some (hash_password sk ADMIN_PASSWORD)\<rparr>)
      (user_coll db) = user_coll db"
    by (rule update_one_id)
  from r have "find_one (has_email ADMIN_EMAIL) (user_coll db) \<noteq> None"
    by (auto simp: find_one_None)
  then obtain x where "find_one (has_email ADMIN_EMAIL) (user_coll db) = Some x" by auto
  then show ?thesis by (simp add: seed_admin_def m o)
qed

text \<open>
  C3, amended. For every user collection that holds at most one record with the reserved
  email, the seeding routine returns a store in which the records with role \<^verbatim>\<open>admin\<close>
  are exactly one record, that record is the one record with the reserved email, and its
  password hash is the hash of the configured admin password; running the routine a
  second time returns that same store.
\<close>

theorem seed_admin_single_admin:
  assumes "length (reserved_records db) \<le> 1"
  shows "\<exists>db1 r. seed_admin sk i a b (Some db) = Some db1
           \<and> seed_admin sk i' a' b' (seed_admin sk i a b (Some db)) = Some db1
           \<and> admin_records db1 = [r] \<and> reserved_records db1 = [r]
           \<and> u_password_hash r = Some (hash_password sk ADMIN_PASSWORD)"
proof -
  from seed_admin_once[OF assms] obtain db1 r where
    s: "seed_admin sk i a b (Some db) = Some db1" and a: "admin_records db1 = [r]"
    and e: "reserved_records db1 = [r]"
    and h: "u_password_hash r = Some (hash_password sk ADMIN_PASSWORD)"
    by blast
  from seed_admin_again[OF a e h] s a e h show ?thesis by simp
qed

theorem seed_admin_single_admin_witness:
  "length (reserved_records
       \<lparr>user_coll = [sample_user oid_a ''eve@example.com'' ''x'' ''admin''],
        product_coll = [], order_coll = []\<rparr>) \<le> 1
   \<and> (\<exists>db1 r.
         seed_admin ''k'' oid_b 1 2
           (Some \<lparr>user_coll = [sample_user oid_a ''eve@example.com'' ''x'' ''admin''],
                  product_coll = [], order_coll = []\<rparr>) = Some db1
       \<and> seed_admin ''k'' oid_c 3 4
           (seed_admin ''k'' oid_b 1 2
              (Some \<lparr>user_coll = [sample_user oid_a ''eve@example.com'' ''x'' ''admin''],
                     product_coll = [], order_coll = []\<rparr>)) = Some db1
       \<and> admin_records db1 = [r] \<and> reserved_records db1 = [r]
       \<and> u_password_hash r = Some (hash_password ''k'' ADMIN_PASSWORD))"
  using seed_admin_single_admin
    [of "\<lparr>user_coll = [sample_user oid_a ''eve@example.com'' ''x'' ''admin''],
          product_coll = [], order_coll = []\<rparr>" "''k''" oid_b 1 2 oid_c 3 4]
  by (simp add: reserved_records_def has_email_def sample_user_def ADMIN_EMAIL_def)

text \<open>
  C3 as stated, for every initial user collection, fails: with two records that both
  carry the reserved email and both hold role \<^verbatim>\<open>admin\<close>, \<^verbatim>\<open>update_one\<close> resets the first,
  the demotion filter skips both, and two records hold role \<^verbatim>\<open>admin\<close> afterwards.
\<close>

theorem seed_admin_duplicate_reserved_counterexample:
  "map_option (length \<circ> admin_records)
     (seed_admin ''k'' oid_c 1 2
        (Some \<lparr>user_coll = [sample_user oid_a ADMIN_EMAIL ''x'' ''admin'',
                            sample_user oid_b ADMIN_EMAIL ''y'' ''admin''],
               product_coll = [], order_coll = []\<rparr>)) = Some 2"
  by (simp add: seed_admin_def admin_records_def find_one_def has_email_def sample_user_def
      update_many_def other_admin_def)

subsection \<open>Signup, login and password digests\<close>

text \<open>
  Signup and login. \<open>signup_doc\<close> and \<open>signup_view\<close> name the document signup stores
  and the dictionary it returns.
\<close>

lemma user_signup_ok:
  assumes "signup_email payload \<noteq> ADMIN_EMAIL"
    and "find_one (has_email (signup_email payload)) (user_coll db) = None"
  shows "user_signup sk i payload (Some db) =
           (Inr (signup_view i payload),
            Some (db\<lparr>user_coll := user_coll db @ [signup_doc sk i payload]\<rparr>))"
  using assms
  by (simp add: user_signup_def create_document_def user_ints_def insert_one_def signup_doc_def
      signup_view_def)

lemma user_signup_Inr:
  assumes "user_signup sk i payload (Some db) = (Inr v, dbo)"
  shows "signup_email payload \<noteq> ADMIN_EMAIL
       \<and> find_one (has_email (signup_email payload)) (user_coll db) = None
       \<and> v = signup_view i payload
       \<and> dbo = Some (db\<lparr>user_coll := user_coll db @ [signup_doc sk i payload]\<rparr>)"
  using assms
  by (auto simp: user_signup_def create_document_def user_ints_def insert_one_def signup_doc_def
      signup_view_def
      split: if_splits option.splits)

lemma find_one_signup_doc:
  "find_one (has_email e) us = None \<Longrightarrow> signup_email payload = e \<Longrightarrow>
   find_one (has_email e) (us @ [signup_doc sk i payload]) = Some (signup_doc sk i payload)"
  by (simp add: find_one_append) (simp add: find_one_def has_email_def signup_doc_def)

text \<open>
  C6. For every signup whose email is not the reserved one and not yet registered
  (database available), signup succeeds, and a login with the same email and password on
  the store signup leaves succeeds and returns the same public view, with role \<^verbatim>\<open>user\<close>
  and the same email.
\<close>

theorem signup_then_login:
  assumes "signup_email payload \<noteq> ADMIN_EMAIL"
    and "find_one (has_email (signup_email payload)) (user_coll db) = None"
  shows "\<exists>v db'. user_signup sk new_id payload (Some db) = (Inr v, Some db')
           \<and> user_login sk \<lparr>login_email = signup_email payload,
                              login_password = signup_password payload\<rparr> (Some db')
               = (Inr v, Some db')
           \<and> up_role v = ''user'' \<and> up_email v = Some (signup_email payload)"
proof -
  let ?d = "signup_doc sk new_id payload"
  let ?db = "db\<lparr>user_coll := user_coll db @ [?d]\<rparr>"
  have f: "find_one (has_email (signup_email payload)) (user_coll ?db) = Some ?d"
    using find_one_signup_doc[OF assms(2) refl] by simp
  have v: "verify_password sk (signup_password payload)
             (dict_get (u_password_hash ?d) []) = Inr True"
    by (simp add: signup_doc_def dict_get_def verify_password_digest)
  have "user_login sk \<lparr>login_email = signup_email payload,
                        login_password = signup_password payload\<rparr> (Some ?db)
          = (Inr (signup_view new_id payload), Some ?db)"
    unfolding user_login_def using f v
    by (simp add: signup_doc_def signup_view_def dict_get_def)
  with user_signup_ok[OF assms, of sk new_id] show ?thesis
    by (simp add: signup_view_def)
qed

theorem signup_then_login_witness:
  "signup_email \<lparr>signup_name = ''Ann'', signup_email = ''ann@example.com'',
                  signup_password = ''pw''\<rparr> \<noteq> ADMIN_EMAIL
   \<and> find_one (has_email (signup_email \<lparr>signup_name = ''Ann'', signup_email = ''ann@example.com'',
                  signup_password = ''pw''\<rparr>)) (user_coll empty_db) = None
   \<and> (\<exists>v db'. user_signup ''k'' oid_a
                  \<lparr>signup_name = ''Ann'', signup_email = ''ann@example.com'',
                   signup_password = ''pw''\<rparr> (Some empty_db) = (Inr v, Some db')
           \<and> user_login ''k'' \<lparr>login_email = ''ann@example.com'', login_password = ''pw''\<rparr>
                 (Some db') = (Inr v, Some db')
           \<and> up_role v = ''user'' \<and> up_email v = Some ''ann@example.com'')"
  using signup_then_login
    [of "\<lparr>signup_name = ''Ann'', signup_email = ''ann@example.com'', signup_password = ''pw''\<rparr>"
        empty_db "''k''" oid_a]
  by (simp add: ADMIN_EMAIL_def empty_db_def find_one_def)

text \<open>
  C8. For every password \<open>p\<close>, \<^verbatim>\<open>verify_password(p, hash_password(p))\<close> returns true;
  and the digest depends on the key and the password alone: two users who sign up, one
  after the other, with the same password are stored with the same digest, the hash of
  that password.
\<close>

theorem hash_password_deterministic:
  "verify_password sk p (hash_password sk p) = Inr True
   \<and> (\<forall>db i1 i2 s1 s2 v1 v2 db1 db2.
         signup_password s1 = p \<and> signup_password s2 = p
         \<and> user_signup sk i1 s1 (Some db) = (Inr v1, Some db1)
         \<and> user_signup sk i2 s2 (Some db1) = (Inr v2, Some db2)
         \<longrightarrow> (\<exists>u1 u2. find_one (has_email (signup_email s1)) (user_coll db2) = Some u1
                \<and> find_one (has_email (signup_email s2)) (user_coll db2) = Some u2
                \<and> u_password_hash u1 = Some (hash_password sk p)
                \<and> u_password_hash u2 = Some (hash_password sk p)))"
proof (intro conjI allI impI)
  show "verify_password sk p (hash_password sk p) = Inr True"
    by (simp add: verify_password_digest)
next
  fix db i1 i2 s1 s2 v1 v2 db1 db2
  assume a: "signup_password s1 = p \<and> signup_password s2 = p
         \<and> user_signup sk i1 s1 (Some db) = (Inr v1, Some db1)
         \<and> user_signup sk i2 s2 (Some db1) = (Inr v2, Some db2)"
  then have p: "signup_password s1 = p" "signup_password s2 = p" by simp_all
  from a user_signup_Inr[of sk i1 s1 db v1 "Some db1"]
  have n1: "find_one (has_email (signup_email s1)) (user_coll db) = None"
    and d1: "db1 = db\<lparr>user_coll := user_coll db @ [signup_doc sk i1 s1]\<rparr>" by simp_all
  from a user_signup_Inr[of sk i2 s2 db1 v2 "Some db2"]
  have n2: "find_one (has_email (signup_email s2)) (user_coll db1) = None"
    and d2: "db2 = db1\<lparr>user_coll := user_coll db1 @ [signup_doc sk i2 s2]\<rparr>" by simp_all
  have f1: "find_one (has_email (signup_email s1)) (user_coll db1) = Some (signup_doc sk i1 s1)"
    using find_one_signup_doc[OF n1 refl] d1 by simp
  then have "find_one (has_email (signup_email s1)) (user_coll db2) = Some (signup_doc sk i1 s1)"
    using d2 by (simp add: find_one_append)
  moreover have "find_one (has_email (signup_email s2)) (user_coll db2) = Some (signup_doc sk i2 s2)"
    using find_one_signup_doc[OF n2 refl] d2 by simp
  ultimately
  show "\<exists>u1 u2. find_one (has_email (signup_email s1)) (user_coll db2) = Some u1
                \<and> find_one (has_email (signup_email s2)) (user_coll db2) = Some u2
                \<and> u_password_hash u1 = Some (hash_password sk p)
                \<and> u_password_hash u2 = Some (hash_password sk p)"
    using p by (simp add: signup_doc_def)
qed

theorem hash_password_deterministic_witness:
  "verify_password ''k'' ''pw'' (hash_password ''k'' ''pw'') = Inr True
   \<and> user_signup ''k'' oid_a (sample_signup ''ann@example.com'' ''pw'') (Some empty_db)
       = (Inr (signup_view oid_a (sample_signup ''ann@example.com'' ''pw'')),
          Some (empty_db\<lparr>user_coll :=
                  [signup_doc ''k'' oid_a (sample_signup ''ann@example.com'' ''pw'')]\<rparr>))
   \<and> user_signup ''k'' oid_b (sample_signup ''bob@example.com'' ''pw'')
         (Some (empty_db\<lparr>user_coll :=
                  [signup_doc ''k'' oid_a (sample_signup ''ann@example.com'' ''pw'')]\<rparr>))
       = (Inr (signup_view oid_b (sample_signup ''bob@example.com'' ''pw'')),
          Some (empty_db\<lparr>user_coll :=
                  [signup_doc ''k'' oid_a (sample_signup ''ann@example.com'' ''pw''),
                   signup_doc ''k'' oid_b (sample_signup ''bob@example.com'' ''pw'')]\<rparr>))
   \<and> (\<exists>u1 u2.
         find_one (has_email ''ann@example.com'')
           (user_coll (empty_db\<lparr>user_coll :=
                  [signup_doc ''k'' oid_a (sample_signup ''ann@example.com'' ''pw''),
                   signup_doc ''k'' oid_b (sample_signup ''bob@example.com'' ''pw'')]\<rparr>)) = Some u1
       \<and> find_one (has_email ''bob@example.com'')
           (user_coll (empty_db\<lparr>user_coll :=
                  [signup_doc ''k'' oid_a (sample_signup ''ann@example.com'' ''pw''),
                   signup_doc ''k'' oid_b (sample_signup ''bob@example.com'' ''pw'')]\<rparr>)) = Some u2
       \<and> u_password_hash u1 = Some (hash_password ''k'' ''pw'')
       \<and> u_password_hash u2 = Some (hash_password ''k'' ''pw''))"
proof -
  let ?ann = "sample_signup ''ann@example.com'' ''pw''"
  let ?bob = "sample_signup ''bob@example.com'' ''pw''"
  let ?db1 = "empty_db\<lparr>user_coll := [signup_doc ''k'' oid_a ?ann]\<rparr>"
  let ?db2 = "empty_db\<lparr>user_coll := [signup_doc ''k'' oid_a ?ann, signup_doc ''k'' oid_b ?bob]\<rparr>"
  have h1: "user_signup ''k'' oid_a ?ann (Some empty_db) = (Inr (signup_view oid_a ?ann), Some ?db1)"
    by (simp add: user_signup_ok sample_signup_def ADMIN_EMAIL_def empty_db_def find_one_def)
  have h2: "user_signup ''k'' oid_b ?bob (Some ?db1) = (Inr (signup_view oid_b ?bob), Some ?db2)"
    by (simp add: user_signup_ok sample_signup_def ADMIN_EMAIL_def empty_db_def find_one_def
        has_email_def signup_doc_def)
  have p: "signup_password ?ann = ''pw''" "signup_password ?bob = ''pw''"
    "signup_email ?ann = ''ann@example.com''" "signup_email ?bob = ''bob@example.com''"
    by (simp_all add: sample_signup_def)
  note t = hash_password_deterministic[of "''k''" "''pw''"]
  from t have v: "verify_password ''k'' ''pw'' (hash_password ''k'' ''pw'') = Inr True" ..
  from t have "\<forall>db i1 i2 s1 s2 v1 v2 db1 db2.
         signup_password s1 = ''pw'' \<and> signup_password s2 = ''pw''
         \<and> user_signup ''k'' i1 s1 (Some db) = (Inr v1, Some db1)
         \<and> user_signup ''k'' i2 s2 (Some db1) = (Inr v2, Some db2)
         \<longrightarrow> (\<exists>u1 u2. find_one (has_email (signup_email s1)) (user_coll db2) = Some u1
                \<and> find_one (has_email (signup_email s2)) (user_coll db2) = Some u2
                \<and> u_password_hash u1 = Some (hash_password ''k'' ''pw'')
                \<and> u_password_hash u2 = Some (hash_password ''k'' ''pw''))" ..
  then have "signup_password ?ann = ''pw'' \<and> signup_password ?bob = ''pw''
         \<and> user_signup ''k'' oid_a ?ann (Some empty_db) = (Inr (signup_view oid_a ?ann), Some ?db1)
         \<and> user_signup ''k'' oid_b ?bob (Some ?db1) = (Inr (signup_view oid_b ?bob), Some ?db2)
         \<longrightarrow> (\<exists>u1 u2. find_one (has_email (signup_email ?ann)) (user_coll ?db2) = Some u1
                \<and> find_one (has_email (signup_email ?bob)) (user_coll ?db2) = Some u2
                \<and> u_password_hash u1 = Some (hash_password ''k'' ''pw'')
                \<and> u_password_hash u2 = Some (hash_password ''k'' ''pw''))"
    by (elim allE)
  with p(1,2) h1 h2 have "\<exists>u1 u2. find_one (has_email (signup_email ?ann)) (user_coll ?db2) = Some u1
                \<and> find_one (has_email (signup_email ?bob)) (user_coll ?db2) = Some u2
                \<and> u_password_hash u1 = Some (hash_password ''k'' ''pw'')
                \<and> u_password_hash u2 = Some (hash_password ''k'' ''pw'')"
    by (elim impE) (intro conjI, assumption+)
  with v h1 h2 show ?thesis unfolding p(3,4) by (intro conjI)
qed

subsection \<open>Admin login\<close>

text \<open>
  Lookups after the updates of the seeding routine.
\<close>

lemma find_one_update_many:
  assumes "\<And>u. P (g u) = P u"
  shows "find_one P (update_many Q g us) = map_option (\<lambda>u. if Q u then g u else u) (find_one P us)"
  by (induction us) (simp_all add: find_one_def update_many_def assms)

lemma find_one_update_one:
  assumes "\<And>u. P u \<Longrightarrow> P (f u)"
  shows "find_one P (update_one P f us) = map_option f (find_one P us)"
  by (induction us) (simp_all add: find_one_def assms)

lemma seed_admin_first:
  "\<exists>db1 r. seed_admin sk i a b (Some db) = Some db1
     \<and> find_one (has_email ADMIN_EMAIL) (user_coll db1) = Some r
     \<and> u_role r = Some ''admin''
     \<and> u_password_hash r = Some (hash_password sk ADMIN_PASSWORD)"
proof (cases "find_one (has_email ADMIN_EMAIL) (user_coll db)")
  case None
  let ?new = "\<lparr>u_id = i, u_name = Some ''Admin'', u_email = Some ADMIN_EMAIL,
                u_password_hash = Some (hash_password sk ADMIN_PASSWORD),
                u_role = Some ''admin'', u_created_at = Some a, u_updated_at = Some b\<rparr>"
  have n: "has_email ADMIN_EMAIL ?new" "\<not> other_admin ?new"
    by (simp_all add: has_email_def other_admin_def)
  have "find_one (has_email ADMIN_EMAIL) (user_coll db @ [?new]) = Some ?new"
    using None n(1) by (simp add: find_one_append) (simp add: find_one_def)
  then have "find_one (has_email ADMIN_EMAIL)
               (update_many other_admin (\<lambda>u. u\<lparr>u_role := Some ''user''\<rparr>) (user_coll db @ [?new]))
             = Some ?new"
    using n(2) by (simp add: find_one_update_many has_email_def)
  with None show ?thesis
    by (simp add: seed_admin_def insert_one_def)
next
  case (Some r)
  let ?g = "\<lambda>u. u\<lparr>u_role := Some ''user''\<rparr>"
  let ?f = "\<lambda>u. u\<lparr>u_role := Some ''admin'',
                    u_password_hash := Some (hash_password sk ADMIN_PASSWORD)\<rparr>"
  from Some have "has_email ADMIN_EMAIL r" by (simp add: find_one_Some_P)
  then have "\<not> other_admin r" by (simp add: has_email_def other_admin_def)
  have "find_one (has_email ADMIN_EMAIL) (update_many other_admin ?g (user_coll db))
          = map_option (\<lambda>u. if other_admin u then ?g u else u)
              (find_one (has_email ADMIN_EMAIL) (user_coll db))"
    by (rule find_one_update_many) (simp add: has_email_def)
  with Some \<open>\<not> other_admin r\<close>
  have m: "find_one (has_email ADMIN_EMAIL) (update_many other_admin ?g (user_coll db)) = Some r"
    by simp
  have "find_one (has_email ADMIN_EMAIL)
          (update_one (has_email ADMIN_EMAIL) ?f (update_many other_admin ?g (user_coll db)))
        = map_option ?f
            (find_one (has_email ADMIN_EMAIL) (update_many other_admin ?g (user_coll db)))"
    by (rule find_one_update_one) (simp add: has_email_def)
  with m have "find_one (has_email ADMIN_EMAIL)
          (update_one (has_email ADMIN_EMAIL) ?f (update_many other_admin ?g (user_coll db)))
        = Some (?f r)"
    by simp
  with Some show ?thesis
    by (simp add: seed_admin_def)
qed

lemma admin_login_Inr_iff:
  "(\<exists>v. fst (admin_login sk payload (Some db)) = Inr v) \<longleftrightarrow>
     (login_email payload = ADMIN_EMAIL
      \<and> (\<exists>u. find_one (has_email ADMIN_EMAIL) (user_coll db) = Some u
            \<and> verify_password sk (login_password payload) (dict_get (u_password_hash u) []) = Inr True
            \<and> u_role u = Some ''admin''))"
  by (auto simp: admin_login_def split: option.splits sum.splits)

text \<open>
  C5. Admin login (database available) succeeds exactly when the supplied email is the
  reserved admin email, the password verifies against the stored hash of the record found
  under that email, and that record's role is \<^verbatim>\<open>admin\<close>; on the store the seeding routine
  leaves, that is exactly when the email is the reserved one and the password verifies
  against the hash of the configured admin password. For any other email whose account
  stores a password digest, admin login fails with 403 \<^verbatim>\<open>Admin access denied\<close> when the
  password is right and with 401 \<^verbatim>\<open>Invalid credentials\<close> when it is not, whatever the
  role of that account.
\<close>

theorem admin_login_only_reserved:
  "((\<exists>v. fst (admin_login sk payload (Some db)) = Inr v) \<longleftrightarrow>
      (login_email payload = ADMIN_EMAIL
       \<and> (\<exists>u. find_one (has_email ADMIN_EMAIL) (user_coll db) = Some u
             \<and> verify_password sk (login_password payload) (dict_get (u_password_hash u) []) = Inr True
             \<and> u_role u = Some ''admin'')))
   \<and> ((\<exists>v. fst (admin_login sk payload (seed_admin sk i a b (Some db))) = Inr v) \<longleftrightarrow>
      (login_email payload = ADMIN_EMAIL
       \<and> verify_password sk (login_password payload) (hash_password sk ADMIN_PASSWORD) = Inr True))
   \<and> (\<forall>u p. login_email payload \<noteq> ADMIN_EMAIL
         \<and> find_one (has_email (login_email payload)) (user_coll db) = Some u
         \<and> u_password_hash u = Some (hash_password sk p)
         \<longrightarrow> fst (admin_login sk payload (Some db))
             = Inl (if hash_password sk (login_password payload) = hash_password sk p
                    then HTTPException 403 ''Admin access denied''
                    else HTTPException 401 ''Invalid credentials''))"
proof (intro conjI allI impI)
  show "(\<exists>v. fst (admin_login sk payload (Some db)) = Inr v) \<longleftrightarrow>
      (login_email payload = ADMIN_EMAIL
       \<and> (\<exists>u. find_one (has_email ADMIN_EMAIL) (user_coll db) = Some u
             \<and> verify_password sk (login_password payload) (dict_get (u_password_hash u) []) = Inr True
             \<and> u_role u = Some ''admin''))"
    by (rule admin_login_Inr_iff)
next
  from seed_admin_first[of sk i a b db] obtain db1 r where
    s: "seed_admin sk i a b (Some db) = Some db1"
    and f: "find_one (has_email ADMIN_EMAIL) (user_coll db1) = Some r"
    and r: "u_role r = Some ''admin''"
    and h: "u_password_hash r = Some (hash_password sk ADMIN_PASSWORD)"
    by blast
  show "(\<exists>v. fst (admin_login sk payload (seed_admin sk i a b (Some db))) = Inr v) \<longleftrightarrow>
      (login_email payload = ADMIN_EMAIL
       \<and> verify_password sk (login_password payload) (hash_password sk ADMIN_PASSWORD) = Inr True)"
    unfolding s admin_login_Inr_iff using f r h by (simp add: dict_get_def)
next
  fix u p
  assume "login_email payload \<noteq> ADMIN_EMAIL
         \<and> find_one (has_email (login_email payload)) (user_coll db) = Some u
         \<and> u_password_hash u = Some (hash_password sk p)"
  then show "fst (admin_login sk payload (Some db))
             = Inl (if hash_password sk (login_password payload) = hash_password sk p
                    then HTTPException 403 ''Admin access denied''
                    else HTTPException 401 ''Invalid credentials'')"
    by (simp add: admin_login_def dict_get_def verify_password_digest)
qed

theorem admin_login_only_reserved_witness:
  "(\<exists>v. fst (admin_login ''k''
             \<lparr>login_email = ADMIN_EMAIL, login_password = ADMIN_PASSWORD\<rparr>
             (seed_admin ''k'' oid_b 1 2 (Some empty_db))) = Inr v)
   \<and> fst (admin_login ''k'' \<lparr>login_email = ''eve@example.com'', login_password = ''pw''\<rparr>
        (Some \<lparr>user_coll = [sample_user oid_a ''eve@example.com'' (hash_password ''k'' ''pw'') ''admin''],
               product_coll = [], order_coll = []\<rparr>))
     = Inl (HTTPException 403 ''Admin access denied'')"
proof -
  have "(\<exists>v. fst (admin_login ''k''
             \<lparr>login_email = ADMIN_EMAIL, login_password = ADMIN_PASSWORD\<rparr>
             (seed_admin ''k'' oid_b 1 2 (Some empty_db))) = Inr v)"
    using admin_login_only_reserved
      [of "''k''" "\<lparr>login_email = ADMIN_EMAIL, login_password = ADMIN_PASSWORD\<rparr>" empty_db oid_b 1 2]
    by (simp add: verify_password_digest)
  moreover
  have "fst (admin_login ''k'' \<lparr>login_email = ''eve@example.com'', login_password = ''pw''\<rparr>
        (Some \<lparr>user_coll = [sample_user oid_a ''eve@example.com'' (hash_password ''k'' ''pw'') ''admin''],
               product_coll = [], order_coll = []\<rparr>))
     = Inl (HTTPException 403 ''Admin access denied'')"
    using admin_login_only_reserved
      [of "''k''" "\<lparr>login_email = ''eve@example.com'', login_password = ''pw''\<rparr>"
          "\<lparr>user_coll = [sample_user oid_a ''eve@example.com'' (hash_password ''k'' ''pw'') ''admin''],
               product_coll = [], order_coll = []\<rparr>" oid_b 1 2]
    by (simp add: ADMIN_EMAIL_def find_one_def has_email_def sample_user_def)
  ultimately show ?thesis ..
qed

subsection \<open>Order placement\<close>

text \<open>
  Order placement: what the two loops and the insert return.
\<close>

lemma check_items_Inr_ids:
  "check_items prods its tot = Inr t \<Longrightarrow> \<forall>it\<in>set its. \<exists>i. ObjectId (product_id it) = Inr i"
  by (induction its arbitrary: tot) (auto split: sum.splits option.splits if_splits)

lemma order_ints_dump:
  "order_ints \<lparr>o_id = i, o_user_id = u, o_items = map item_model_dump its, o_total = t,
                o_status = s\<rparr> = map quantity its"
  by (induction its) (simp_all add: order_ints_def item_model_dump_def pyval_ints_def)

lemma update_one_inc_ok:
  assumes "int64 n"
    and "\<forall>p. find_one (has_id i) ps = Some p \<longrightarrow> int64 (dict_get (p_stock p) 0 + n)"
  shows "update_one_inc i n ps = Inr (update_one (has_id i) (inc_stock n) ps)"
proof (cases "find_one (has_id i) ps")
  case None
  then have "\<forall>x\<in>set ps. has_id i x \<longrightarrow> inc_stock n x = x"
    by (simp add: find_one_None)
  then have "update_one (has_id i) (inc_stock n) ps = ps"
    by (rule update_one_id)
  with None assms show ?thesis by (simp add: update_one_inc_def)
next
  case (Some p)
  with assms show ?thesis by (simp add: update_one_inc_def)
qed

lemma place_order_Inr:
  assumes "place_order new_id order (Some db) = (Inr out, dbo)"
  shows "\<exists>t ps. check_items (product_coll db) (items order) (Dbl 0 0) = Inr t
           \<and> reduce_stock (product_coll db) (items order) = (None, ps)
           \<and> out = \<lparr>oo_id = str_oid new_id, oo_user_id = user_id order, oo_total = t,
                     oo_status = ''placed''\<rparr>
           \<and> dbo = Some (db\<lparr>product_coll := ps,
                 order_coll := order_coll db @
                   [\<lparr>o_id = new_id, o_user_id = user_id order,
                     o_items = map item_model_dump (items order),
                     o_total = t, o_status = ''placed''\<rparr>]\<rparr>)"
proof (cases "check_items (product_coll db) (items order) (Dbl 0 0)")
  case (Inl e')
  with assms show ?thesis by (simp add: place_order_def)
next
  case (Inr t)
  obtain eo ps where r: "reduce_stock (product_coll db) (items order) = (eo, ps)"
    by (cases "reduce_stock (product_coll db) (items order)")
  show ?thesis
  proof (cases eo)
    case (Some e')
    with Inr r assms show ?thesis by (simp add: place_order_def)
  next
    case None
    with Inr r assms show ?thesis
      by (simp add: place_order_def create_document_def insert_one_def split: if_splits)
  qed
qed

lemma place_order_ok:
  assumes "check_items (product_coll db) (items order) (Dbl 0 0) = Inr t"
    and "reduce_stock (product_coll db) (items order) = (None, ps)"
    and "\<forall>it\<in>set (items order). int64 (quantity it)"
  shows "place_order new_id order (Some db) =
               (Inr \<lparr>oo_id = str_oid new_id, oo_user_id = user_id order, oo_total = t,
                     oo_status = ''placed''\<rparr>,
                Some (db\<lparr>product_coll := ps,
                 order_coll := order_coll db @
                   [\<lparr>o_id = new_id, o_user_id = user_id order,
                     o_items = map item_model_dump (items order),
                     o_total = t, o_status = ''placed''\<rparr>]\<rparr>))"
proof -
  from assms(3) have "list_all int64 (map quantity (items order))"
    by (simp add: list_all_iff)
  with assms(1,2) show ?thesis
    by (simp add: place_order_def create_document_def insert_one_def order_ints_dump)
qed

lemma check_items_fails:
  assumes "\<forall>it\<in>set its. (\<exists>i. ObjectId (product_id it) = Inr i)
                           \<and> (\<exists>x. float_of_int (quantity it) = Inr x)"
    and "\<exists>it\<in>set its. \<exists>i. ObjectId (product_id it) = Inr i
           \<and> (find_one (has_id i) prods = None
              \<or> (\<exists>prd. find_one (has_id i) prods = Some prd
                    \<and> dict_get (p_stock prd) 0 < quantity it))"
  shows "\<exists>it\<in>set its. \<exists>i. ObjectId (product_id it) = Inr i
           \<and> ((find_one (has_id i) prods = None
                \<and> check_items prods its tot = Inl (HTTPException 404 ''Product not found''))
              \<or> (\<exists>prd. find_one (has_id i) prods = Some prd
                    \<and> dict_get (p_stock prd) 0 < quantity it
                    \<and> check_items prods its tot
                        = Inl (HTTPException 400
                                 (''Insufficient stock for '' @ format_name (p_name prd)))))"
  using assms
proof (induction its arbitrary: tot)
  case Nil
  then show ?case by simp
next
  case (Cons it its)
  from Cons.prems(1) obtain i x where i: "ObjectId (product_id it) = Inr i"
    and x: "float_of_int (quantity it) = Inr x" by auto
  show ?case
  proof (cases "find_one (has_id i) prods")
    case None
    with i show ?thesis by auto
  next
    case (Some prd)
    show ?thesis
    proof (cases "dict_get (p_stock prd) 0 < quantity it")
      case True
      with i Some show ?thesis by auto
    next
      case False
      with i Some Cons.prems have bad:
        "\<exists>x\<in>set its. \<exists>i. ObjectId (product_id x) = Inr i
           \<and> (find_one (has_id i) prods = None
              \<or> (\<exists>prd. find_one (has_id i) prods = Some prd
                    \<and> dict_get (p_stock prd) 0 < quantity x))"
        by auto
      from Cons.prems(1) have wf: "\<forall>it\<in>set its. (\<exists>i. ObjectId (product_id it) = Inr i)
                           \<and> (\<exists>x. float_of_int (quantity it) = Inr x)"
        by simp
      note Cons.IH[OF wf bad,
          of "float_add tot (float_mul (dict_get (p_price prd) (Dbl 0 0)) x)"]
      with i x Some False show ?thesis by auto
    qed
  qed
qed

text \<open>
  C1, amended. When every product id of the request is a string that \<^verbatim>\<open>ObjectId(...)\<close>
  accepts and every quantity is an integer that converts to a float, and some item's
  product is missing or has stock less than the requested quantity, order placement
  ends with the error of such an item, 404 \<^verbatim>\<open>Product not found\<close> for a missing product and
  400 \<^verbatim>\<open>Insufficient stock for\<close> followed by the product's name for a short stock, and the
  store is the one it started from: no stock is changed and no order is inserted.
\<close>

theorem place_order_error_path:
  "(\<forall>it\<in>set (items order). (\<exists>i. ObjectId (product_id it) = Inr i)
                               \<and> (\<exists>x. float_of_int (quantity it) = Inr x))
   \<and> (\<exists>it\<in>set (items order). \<exists>i. ObjectId (product_id it) = Inr i
         \<and> (find_one (has_id i) (product_coll db) = None
            \<or> (\<exists>prd. find_one (has_id i) (product_coll db) = Some prd
                  \<and> dict_get (p_stock prd) 0 < quantity it)))
   \<longrightarrow> (\<exists>it\<in>set (items order). \<exists>i. ObjectId (product_id it) = Inr i
         \<and> ((find_one (has_id i) (product_coll db) = None
              \<and> place_order new_id order (Some db)
                  = (Inl (HTTPException 404 ''Product not found''), Some db))
            \<or> (\<exists>prd. find_one (has_id i) (product_coll db) = Some prd
                  \<and> dict_get (p_stock prd) 0 < quantity it
                  \<and> place_order new_id order (Some db)
                      = (Inl (HTTPException 400
                                (''Insufficient stock for '' @ format_name (p_name prd))),
                         Some db))))"
proof
  assume a: "(\<forall>it\<in>set (items order). (\<exists>i. ObjectId (product_id it) = Inr i)
                               \<and> (\<exists>x. float_of_int (quantity it) = Inr x))
   \<and> (\<exists>it\<in>set (items order). \<exists>i. ObjectId (product_id it) = Inr i
         \<and> (find_one (has_id i) (product_coll db) = None
            \<or> (\<exists>prd. find_one (has_id i) (product_coll db) = Some prd
                  \<and> dict_get (p_stock prd) 0 < quantity it)))"
  have p: "\<And>e. check_items (product_coll db) (items order) (Dbl 0 0) = Inl e
            \<Longrightarrow> place_order new_id order (Some db) = (Inl e, Some db)"
    by (simp add: place_order_def)
  from a have a1: "\<forall>it\<in>set (items order). (\<exists>i. ObjectId (product_id it) = Inr i)
                               \<and> (\<exists>x. float_of_int (quantity it) = Inr x)"
    and a2: "\<exists>it\<in>set (items order). \<exists>i. ObjectId (product_id it) = Inr i
         \<and> (find_one (has_id i) (product_coll db) = None
            \<or> (\<exists>prd. find_one (has_id i) (product_coll db) = Some prd
                  \<and> dict_get (p_stock prd) 0 < quantity it))"
    by blast+
  from check_items_fails[OF a1 a2, of "Dbl 0 0"]
  have "\<exists>it\<in>set (items order). \<exists>i. ObjectId (product_id it) = Inr i
           \<and> ((find_one (has_id i) (product_coll db) = None
                \<and> check_items (product_coll db) (items order) (Dbl 0 0)
                    = Inl (HTTPException 404 ''Product not found''))
              \<or> (\<exists>prd. find_one (has_id i) (product_coll db) = Some prd
                    \<and> dict_get (p_stock prd) 0 < quantity it
                    \<and> check_items (product_coll db) (items order) (Dbl 0 0)
                        = Inl (HTTPException 400
                                 (''Insufficient stock for '' @ format_name (p_name prd)))))" .
  then show "\<exists>it\<in>set (items order). \<exists>i. ObjectId (product_id it) = Inr i
         \<and> ((find_one (has_id i) (product_coll db) = None
              \<and> place_order new_id order (Some db)
                  = (Inl (HTTPException 404 ''Product not found''), Some db))
            \<or> (\<exists>prd. find_one (has_id i) (product_coll db) = Some prd
                  \<and> dict_get (p_stock prd) 0 < quantity it
                  \<and> place_order new_id order (Some db)
                      = (Inl (HTTPException 400
                                (''Insufficient stock for '' @ format_name (p_name prd))),
                         Some db)))"
    using p by blast
qed

theorem place_order_error_path_witness:
  "ObjectId ''0123456789ABCDEF00000001'' = Inr oid_a
   \<and> float_of_int 6 = Inr (Dbl 6 0)
   \<and> find_one (has_id oid_a) (product_coll (sample_store 5)) = Some (sample_product oid_a (Dbl 1 0) 5)
   \<and> dict_get (p_stock (sample_product oid_a (Dbl 1 0) 5)) 0 < 6
   \<and> place_order oid_c (sample_order 6) (Some (sample_store 5))
       = (Inl (HTTPException 400 ''Insufficient stock for Mango''), Some (sample_store 5))"
  using place_order_error_path[of "sample_order 6" "sample_store 5" oid_c]
  by (simp add: ObjectId_sample float_of_int_examples sample_order_def sample_store_def
      find_one_def has_id_def sample_product_def dict_get_def format_name_def)

text \<open>
  C1 as stated, for every request, fails on the kind of error. A product id that is not
  a 24-character hexadecimal string names no product, and \<^verbatim>\<open>ObjectId(...)\<close> raises
  \<^verbatim>\<open>InvalidId\<close> before the lookup, so the request ends with neither the 404 nor the 400.
  And in a request whose second item names a missing product, a first item in stock with
  a quantity of 1025 bits ends the request with \<^verbatim>\<open>OverflowError\<close>, raised by the
  multiplication of the price, before the second item is looked up.
\<close>

theorem place_order_error_path_counterexample:
  "place_order oid_c \<lparr>user_id = ''u1'', items = [\<lparr>product_id = ''abc'', quantity = 1\<rparr>]\<rparr>
     (Some empty_db) = (Inl InvalidId, Some empty_db)
   \<and> find_one (has_id oid_b) (product_coll (sample_store 5)) = None
   \<and> place_order oid_c
       \<lparr>user_id = ''u1'',
        items = [\<lparr>product_id = ''0123456789ABCDEF00000001'', quantity = - (2 ^ 1024)\<rparr>,
                 \<lparr>product_id = ''0123456789abcdef00000002'', quantity = 1\<rparr>]\<rparr>
       (Some (sample_store 5)) = (Inl OverflowError, Some (sample_store 5))"
proof -
  have 1: "place_order oid_c \<lparr>user_id = ''u1'', items = [\<lparr>product_id = ''abc'', quantity = 1\<rparr>]\<rparr>
     (Some empty_db) = (Inl InvalidId, Some empty_db)"
    by (simp add: place_order_def ObjectId_def empty_db_def)
  have 2: "find_one (has_id oid_b) (product_coll (sample_store 5)) = None"
    by (simp add: sample_store_def find_one_def has_id_def sample_product_def oid_a_def oid_b_def)
  have n: "\<not> (5 :: int) < - (2 ^ 1024)"
    by simp
  have c: "check_items (product_coll (sample_store 5))
             [\<lparr>product_id = ''0123456789ABCDEF00000001'', quantity = - (2 ^ 1024)\<rparr>,
              \<lparr>product_id = ''0123456789abcdef00000002'', quantity = 1\<rparr>] (Dbl 0 0)
           = Inl OverflowError"
    using n
    by (simp add: sample_store_def ObjectId_sample find_one_def has_id_def sample_product_def
        dict_get_def float_of_int_overflow del: power_numeral)
  have 3: "place_order oid_c
       \<lparr>user_id = ''u1'',
        items = [\<lparr>product_id = ''0123456789ABCDEF00000001'', quantity = - (2 ^ 1024)\<rparr>,
                 \<lparr>product_id = ''0123456789abcdef00000002'', quantity = 1\<rparr>]\<rparr>
       (Some (sample_store 5)) = (Inl OverflowError, Some (sample_store 5))"
    using c by (simp add: place_order_def)
  from 1 2 3 show ?thesis by simp
qed

text \<open>
  C2. With a single product \<open>P\<close> of price 2.50 and stock 10 in the store, an order of
  quantity 3 for \<open>P\<close> leaves \<open>P\<close> with stock 7, inserts an order with total 7.50 and
  status \<^verbatim>\<open>placed\<close> under the assigned id, and returns that id, the user id, total 7.50
  and status \<^verbatim>\<open>placed\<close>.
\<close>

theorem place_order_example:
  assumes "ObjectId pid = Inr (p_id P)"
    and "p_price P = Some (Dbl 5 (- 1))" and "p_stock P = Some 10"
    and "product_coll db = [P]"
    and "items order = [\<lparr>product_id = pid, quantity = 3\<rparr>]"
  shows "place_order new_id order (Some db) =
     (Inr \<lparr>oo_id = str_oid new_id, oo_user_id = user_id order, oo_total = Dbl 15 (- 1),
           oo_status = ''placed''\<rparr>,
      Some (db\<lparr>product_coll := [P\<lparr>p_stock := Some 7\<rparr>],
              order_coll := order_coll db @
                [\<lparr>o_id = new_id, o_user_id = user_id order,
                  o_items = [[(''product_id'', PyStr pid), (''quantity'', PyInt 3)]],
                  o_total = Dbl 15 (- 1), o_status = ''placed''\<rparr>]\<rparr>))
   \<and> float_val (Dbl 5 (- 1)) = 5 / 2 \<and> float_val (Dbl 15 (- 1)) = 15 / 2"
proof -
  have f: "find_one (has_id (p_id P)) [P] = Some P"
    by (simp add: find_one_def has_id_def)
  have c: "check_items (product_coll db) (items order) (Dbl 0 0) = Inr (Dbl 15 (- 1))"
    using assms f by (simp add: dict_get_def float_of_int_examples float_total_example)
  have r: "reduce_stock (product_coll db) (items order) = (None, [P\<lparr>p_stock := Some 7\<rparr>])"
    using assms f
    by (simp add: update_one_inc_def int64_def has_id_def inc_stock_def dict_get_def)
  have q: "\<forall>it\<in>set (items order). int64 (quantity it)"
    using assms(5) by (simp add: int64_def)
  show ?thesis
    using place_order_ok[OF c r q, of new_id] assms(5)
    by (simp add: item_model_dump_def float_val_example)
qed

theorem place_order_example_witness:
  "ObjectId ''0123456789ABCDEF00000001'' = Inr (p_id (sample_product oid_a (Dbl 5 (- 1)) 10))
   \<and> p_price (sample_product oid_a (Dbl 5 (- 1)) 10) = Some (Dbl 5 (- 1))
   \<and> p_stock (sample_product oid_a (Dbl 5 (- 1)) 10) = Some 10
   \<and> place_order oid_c
        \<lparr>user_id = ''u1'', items = [\<lparr>product_id = ''0123456789ABCDEF00000001'', quantity = 3\<rparr>]\<rparr>
        (Some \<lparr>user_coll = [], product_coll = [sample_product oid_a (Dbl 5 (- 1)) 10],
               order_coll = []\<rparr>) =
     (Inr \<lparr>oo_id = str_oid oid_c, oo_user_id = ''u1'', oo_total = Dbl 15 (- 1),
           oo_status = ''placed''\<rparr>,
      Some \<lparr>user_coll = [], product_coll = [sample_product oid_a (Dbl 5 (- 1)) 7],
            order_coll =
                [\<lparr>o_id = oid_c, o_user_id = ''u1'',
                  o_items = [[(''product_id'', PyStr ''0123456789ABCDEF00000001''),
                              (''quantity'', PyInt 3)]],
                  o_total = Dbl 15 (- 1), o_status = ''placed''\<rparr>]\<rparr>)"
  using place_order_example
    [of "''0123456789ABCDEF00000001''" "sample_product oid_a (Dbl 5 (- 1)) 10"
        "\<lparr>user_coll = [], product_coll = [sample_product oid_a (Dbl 5 (- 1)) 10],
               order_coll = []\<rparr>"
        "\<lparr>user_id = ''u1'', items = [\<lparr>product_id = ''0123456789ABCDEF00000001'', quantity = 3\<rparr>]\<rparr>"
        oid_c]
  by (simp add: ObjectId_sample sample_product_def)

text \<open>
  C7. For every order placed successfully, the stored order has one line item per
  requested item, each exactly the product id and the quantity of the request; of the
  keys the persisted OrderItem schema declares, \<^verbatim>\<open>name\<close> and \<^verbatim>\<open>price\<close> are the ones absent
  from it.
\<close>

theorem place_order_stored_items:
  assumes "place_order new_id order (Some db) = (Inr out, dbo)"
  shows "\<exists>db' doc. dbo = Some db' \<and> order_coll db' = order_coll db @ [doc]
           \<and> o_id doc = new_id \<and> oo_id out = str_oid new_id
           \<and> length (o_items doc) = length (items order)
           \<and> (\<forall>k<length (items order).
                 o_items doc ! k = [(''product_id'', PyStr (product_id (items order ! k))),
                                    (''quantity'', PyInt (quantity (items order ! k)))]
               \<and> map_of (o_items doc ! k) ''name'' = None
               \<and> map_of (o_items doc ! k) ''price'' = None
               \<and> filter (\<lambda>key. map_of (o_items doc ! k) key = None) OrderItem_keys
                   = [''name'', ''price''])"
proof -
  from place_order_Inr[OF assms] obtain t ps where
    o: "out = \<lparr>oo_id = str_oid new_id, oo_user_id = user_id order, oo_total = t,
                     oo_status = ''placed''\<rparr>"
    and d: "dbo = Some (db\<lparr>product_coll := ps,
                 order_coll := order_coll db @
                   [\<lparr>o_id = new_id, o_user_id = user_id order,
                     o_items = map item_model_dump (items order),
                     o_total = t, o_status = ''placed''\<rparr>]\<rparr>)"
    by blast
  show ?thesis
    unfolding o d by (simp add: item_model_dump_def OrderItem_keys_def)
qed

theorem place_order_stored_items_witness:
  "place_order oid_c (sample_order 3) (Some (sample_store 5))
     = (Inr \<lparr>oo_id = str_oid oid_c, oo_user_id = ''u1'', oo_total = Dbl 3 0,
             oo_status = ''placed''\<rparr>,
        Some \<lparr>user_coll = [], product_coll = [sample_product oid_a (Dbl 1 0) 2],
              order_coll =
                [\<lparr>o_id = oid_c, o_user_id = ''u1'',
                  o_items = [[(''product_id'', PyStr ''0123456789ABCDEF00000001''),
                              (''quantity'', PyInt 3)]],
                  o_total = Dbl 3 0, o_status = ''placed''\<rparr>]\<rparr>)
   \<and> (\<exists>doc.
         order_coll \<lparr>user_coll = [], product_coll = [sample_product oid_a (Dbl 1 0) 2],
              order_coll =
                [\<lparr>o_id = oid_c, o_user_id = ''u1'',
                  o_items = [[(''product_id'', PyStr ''0123456789ABCDEF00000001''),
                              (''quantity'', PyInt 3)]],
                  o_total = Dbl 3 0, o_status = ''placed''\<rparr>]\<rparr>
           = order_coll (sample_store 5) @ [doc]
         \<and> o_items doc ! 0 = [(''product_id'', PyStr ''0123456789ABCDEF00000001''),
                                (''quantity'', PyInt 3)]
         \<and> map_of (o_items doc ! 0) ''name'' = None
         \<and> map_of (o_items doc ! 0) ''price'' = None)"
proof -
  let ?db1 = "\<lparr>user_coll = [], product_coll = [sample_product oid_a (Dbl 1 0) 2],
              order_coll =
                [\<lparr>o_id = oid_c, o_user_id = ''u1'',
                  o_items = [[(''product_id'', PyStr ''0123456789ABCDEF00000001''),
                              (''quantity'', PyInt 3)]],
                  o_total = Dbl 3 0, o_status = ''placed''\<rparr>]\<rparr>"
  have p: "place_order oid_c (sample_order 3) (Some (sample_store 5))
     = (Inr \<lparr>oo_id = str_oid oid_c, oo_user_id = ''u1'', oo_total = Dbl 3 0,
             oo_status = ''placed''\<rparr>, Some ?db1)"
    by (simp add: place_order_def sample_order_def sample_store_def ObjectId_sample find_one_def
        has_id_def sample_product_def dict_get_def float_of_int_examples float_unit_examples
        update_one_inc_def int64_def inc_stock_def create_document_def insert_one_def
        item_model_dump_def order_ints_def pyval_ints_def)
  from place_order_stored_items[OF p] obtain db' doc where
    e: "Some ?db1 = Some db'" and o: "order_coll db' = order_coll (sample_store 5) @ [doc]"
    and k: "\<forall>k<length (items (sample_order 3)).
                 o_items doc ! k =
                   [(''product_id'', PyStr (product_id (items (sample_order 3) ! k))),
                    (''quantity'', PyInt (quantity (items (sample_order 3) ! k)))]
               \<and> map_of (o_items doc ! k) ''name'' = None
               \<and> map_of (o_items doc ! k) ''price'' = None
               \<and> filter (\<lambda>key. map_of (o_items doc ! k) key = None) OrderItem_keys
                   = [''name'', ''price'']"
    by blast
  from e o have o': "order_coll ?db1 = order_coll (sample_store 5) @ [doc]" by simp
  from k have "o_items doc ! 0 = [(''product_id'', PyStr ''0123456789ABCDEF00000001''),
                                (''quantity'', PyInt 3)]
         \<and> map_of (o_items doc ! 0) ''name'' = None
         \<and> map_of (o_items doc ! 0) ''price'' = None"
    by (simp add: sample_order_def)
  with o' have "\<exists>doc. order_coll ?db1 = order_coll (sample_store 5) @ [doc]
         \<and> o_items doc ! 0 = [(''product_id'', PyStr ''0123456789ABCDEF00000001''),
                                (''quantity'', PyInt 3)]
         \<and> map_of (o_items doc ! 0) ''name'' = None
         \<and> map_of (o_items doc ! 0) ''price'' = None"
    by blast
  with p show ?thesis by (rule conjI)
qed

text \<open>
  C10. An order with no items succeeds: no product is changed, an order with no line
  items, total 0.0 and status \<^verbatim>\<open>placed\<close> is inserted, and the response carries that
  order's id, the given user id, total 0.0 and status \<^verbatim>\<open>placed\<close>.
\<close>

theorem place_order_empty_items:
  "place_order new_id \<lparr>user_id = uid, items = []\<rparr> (Some db) =
     (Inr \<lparr>oo_id = str_oid new_id, oo_user_id = uid, oo_total = Dbl 0 0, oo_status = ''placed''\<rparr>,
      Some (db\<lparr>order_coll := order_coll db @
              [\<lparr>o_id = new_id, o_user_id = uid, o_items = [], o_total = Dbl 0 0,
                o_status = ''placed''\<rparr>]\<rparr>))
   \<and> float_val (Dbl 0 0) = 0"
  by (simp add: place_order_def create_document_def insert_one_def float_val_def order_ints_def)

text \<open>
  Lookups after the stock updates.
\<close>

lemma check_items_Inr_all:
  "check_items prods its tot = Inr t \<Longrightarrow>
   \<forall>it\<in>set its. \<exists>i prd. ObjectId (product_id it) = Inr i
      \<and> find_one (has_id i) prods = Some prd \<and> quantity it \<le> dict_get (p_stock prd) 0"
  by (induction its arbitrary: tot) (auto split: sum.splits option.splits if_splits)

lemma has_id_inc_stock: "has_id k (inc_stock n p) = has_id k p"
  by (simp add: has_id_def inc_stock_def)

lemma find_one_inc_stock_same:
  "find_one (has_id i) (update_one (has_id i) (inc_stock n) ps) =
     map_option (inc_stock n) (find_one (has_id i) ps)"
  by (induction ps) (simp_all add: find_one_def has_id_inc_stock)

lemma find_one_inc_stock_other:
  "j \<noteq> i \<Longrightarrow> find_one (has_id j) (update_one (has_id i) (inc_stock n) ps) =
     find_one (has_id j) ps"
proof (induction ps)
  case Nil
  then show ?case by (simp add: find_one_def)
next
  case (Cons p ps)
  show ?case
  proof (cases "has_id i p")
    case True
    with Cons.prems have "\<not> has_id j p" by (auto simp: has_id_def)
    with True show ?thesis by (simp add: find_one_def has_id_inc_stock)
  next
    case False
    with Cons show ?thesis by (simp add: find_one_def)
  qed
qed

lemma find_one_inc_stock:
  "find_one (has_id j) (update_one (has_id i) (inc_stock n) ps) =
     (if j = i then map_option (inc_stock n) (find_one (has_id i) ps)
      else find_one (has_id j) ps)"
  by (simp add: find_one_inc_stock_same find_one_inc_stock_other)

lemma reduce_stock_distinct:
  assumes "\<forall>it\<in>set its. \<exists>i. ObjectId (product_id it) = Inr i"
    and "distinct (map (\<lambda>x. ObjectId (product_id x)) its)"
    and "\<forall>it\<in>set its. int64 (- quantity it)"
    and "\<forall>it\<in>set its. \<forall>i prd. ObjectId (product_id it) = Inr i
             \<and> find_one (has_id i) ps = Some prd
           \<longrightarrow> int64 (dict_get (p_stock prd) 0 - quantity it)"
  shows "\<exists>ps'. reduce_stock ps its = (None, ps')
           \<and> (\<forall>it\<in>set its. \<forall>i. ObjectId (product_id it) = Inr i \<longrightarrow>
                 find_one (has_id i) ps'
                   = map_option (inc_stock (- quantity it)) (find_one (has_id i) ps))
           \<and> (\<forall>j. Inr j \<notin> (\<lambda>x. ObjectId (product_id x)) ` set its \<longrightarrow>
                 find_one (has_id j) ps' = find_one (has_id j) ps)"
  using assms
proof (induction its arbitrary: ps)
  case Nil
  then show ?case by simp
next
  case (Cons it its)
  from Cons.prems(1) obtain i where i: "ObjectId (product_id it) = Inr i" by auto
  let ?ps = "update_one (has_id i) (inc_stock (- quantity it)) ps"
  from Cons.prems have wf: "\<forall>x\<in>set its. \<exists>i. ObjectId (product_id x) = Inr i"
    and d: "distinct (map (\<lambda>x. ObjectId (product_id x)) its)"
    and n: "Inr i \<notin> (\<lambda>x. ObjectId (product_id x)) ` set its"
    and q: "\<forall>x\<in>set its. int64 (- quantity x)"
    using i by auto
  from Cons.prems(3) have q0: "int64 (- quantity it)" by simp
  from Cons.prems(4) i
  have s0: "\<forall>p. find_one (has_id i) ps = Some p \<longrightarrow> int64 (dict_get (p_stock p) 0 + - quantity it)"
    by simp
  have u: "update_one_inc i (- quantity it) ps = Inr ?ps"
    using q0 s0 by (rule update_one_inc_ok)
  have st: "\<forall>x\<in>set its. \<forall>k prd. ObjectId (product_id x) = Inr k
             \<and> find_one (has_id k) ?ps = Some prd
           \<longrightarrow> int64 (dict_get (p_stock prd) 0 - quantity x)"
  proof (intro ballI allI impI)
    fix x k prd
    assume x: "x \<in> set its"
      and h: "ObjectId (product_id x) = Inr k \<and> find_one (has_id k) ?ps = Some prd"
    with n have "k \<noteq> i" by force
    with h have "find_one (has_id k) ps = Some prd"
      by (simp add: find_one_inc_stock_other)
    with Cons.prems(4) x h show "int64 (dict_get (p_stock prd) 0 - quantity x)"
      by auto
  qed
  from Cons.IH[OF wf d q st] obtain ps' where
    r: "reduce_stock ?ps its = (None, ps')"
    and a: "\<forall>x\<in>set its. \<forall>k. ObjectId (product_id x) = Inr k \<longrightarrow>
              find_one (has_id k) ps'
                = map_option (inc_stock (- quantity x)) (find_one (has_id k) ?ps)"
    and b: "\<forall>j. Inr j \<notin> (\<lambda>x. ObjectId (product_id x)) ` set its \<longrightarrow>
              find_one (has_id j) ps' = find_one (has_id j) ?ps"
    by blast
  have 1: "reduce_stock ps (it # its) = (None, ps')"
    using i u r by simp
  have 2: "find_one (has_id i) ps' = map_option (inc_stock (- quantity it)) (find_one (has_id i) ps)"
    using b n by (simp add: find_one_inc_stock)
  have 3: "\<forall>x\<in>set its. \<forall>k. ObjectId (product_id x) = Inr k \<longrightarrow>
              find_one (has_id k) ps'
                = map_option (inc_stock (- quantity x)) (find_one (has_id k) ps)"
  proof (intro ballI allI impI)
    fix x k assume x: "x \<in> set its" and k: "ObjectId (product_id x) = Inr k"
    with n have "k \<noteq> i" by force
    with a x k show "find_one (has_id k) ps'
                = map_option (inc_stock (- quantity x)) (find_one (has_id k) ps)"
      by (simp add: find_one_inc_stock)
  qed
  have 4: "\<forall>j. Inr j \<notin> (\<lambda>x. ObjectId (product_id x)) ` set (it # its) \<longrightarrow>
              find_one (has_id j) ps' = find_one (has_id j) ps"
    using b i by (auto simp: find_one_inc_stock)
  from 1 2 3 4 i show ?case by auto
qed

lemma place_order_duplicate_lines:
  "place_order oid_c
     \<lparr>user_id = ''u1'',
      items = [\<lparr>product_id = ''0123456789ABCDEF00000001'', quantity = 3\<rparr>,
               \<lparr>product_id = ''0123456789ABCDEF00000001'', quantity = 3\<rparr>]\<rparr>
     (Some \<lparr>user_coll = [], product_coll = [sample_product oid_a (Dbl 1 0) 5],
            order_coll = []\<rparr>) =
   (Inr \<lparr>oo_id = str_oid oid_c, oo_user_id = ''u1'', oo_total = Dbl 6 0,
         oo_status = ''placed''\<rparr>,
    Some \<lparr>user_coll = [], product_coll = [sample_product oid_a (Dbl 1 0) (- 1)],
          order_coll =
            [\<lparr>o_id = oid_c, o_user_id = ''u1'',
              o_items = [[(''product_id'', PyStr ''0123456789ABCDEF00000001''),
                          (''quantity'', PyInt 3)],
                         [(''product_id'', PyStr ''0123456789ABCDEF00000001''),
                          (''quantity'', PyInt 3)]],
              o_total = Dbl 6 0, o_status = ''placed''\<rparr>]\<rparr>)"
  by (simp add: place_order_def ObjectId_sample find_one_def has_id_def sample_product_def
      dict_get_def float_of_int_examples float_unit_examples update_one_inc_def int64_def
      inc_stock_def create_document_def insert_one_def item_model_dump_def order_ints_def
      pyval_ints_def)

text \<open>
  C9, amended. When a request passes the first loop, its product ids are pairwise
  distinct as ObjectIds (the bytes that \<^verbatim>\<open>ObjectId(...)\<close> reads from the digits, whatever
  the case of the letters), and for every item the quantity, its negation and the
  fetched stock minus the quantity are integers of 64 bits, the order is placed and
  every referenced product ends with its fetched stock minus the item's quantity, which
  is at least 0. Distinctness is needed: one request listing the product of stock 5
  twice with quantity 3 passes the check of each line against the same stock and leaves
  the stock at -1.
\<close>

theorem place_order_distinct_stock:
  "(check_items (product_coll db) (items order) (Dbl 0 0) = Inr t
      \<and> distinct (map (\<lambda>x. ObjectId (product_id x)) (items order))
      \<and> (\<forall>it\<in>set (items order). int64 (quantity it) \<and> int64 (- quantity it)
            \<and> (\<forall>i prd. ObjectId (product_id it) = Inr i
                  \<and> find_one (has_id i) (product_coll db) = Some prd
                \<longrightarrow> int64 (dict_get (p_stock prd) 0 - quantity it)))
    \<longrightarrow> (\<exists>db'. place_order new_id order (Some db) =
             (Inr \<lparr>oo_id = str_oid new_id, oo_user_id = user_id order, oo_total = t,
                   oo_status = ''placed''\<rparr>, Some db')
           \<and> (\<forall>it\<in>set (items order). \<exists>i prd prd'.
                 ObjectId (product_id it) = Inr i
               \<and> find_one (has_id i) (product_coll db) = Some prd
               \<and> find_one (has_id i) (product_coll db') = Some prd'
               \<and> p_stock prd' = Some (dict_get (p_stock prd) 0 - quantity it)
               \<and> 0 \<le> dict_get (p_stock prd) 0 - quantity it)))
   \<and> place_order oid_c
       \<lparr>user_id = ''u1'',
        items = [\<lparr>product_id = ''0123456789ABCDEF00000001'', quantity = 3\<rparr>,
                 \<lparr>product_id = ''0123456789ABCDEF00000001'', quantity = 3\<rparr>]\<rparr>
       (Some \<lparr>user_coll = [], product_coll = [sample_product oid_a (Dbl 1 0) 5],
              order_coll = []\<rparr>) =
     (Inr \<lparr>oo_id = str_oid oid_c, oo_user_id = ''u1'', oo_total = Dbl 6 0,
           oo_status = ''placed''\<rparr>,
      Some \<lparr>user_coll = [], product_coll = [sample_product oid_a (Dbl 1 0) (- 1)],
            order_coll =
              [\<lparr>o_id = oid_c, o_user_id = ''u1'',
                o_items = [[(''product_id'', PyStr ''0123456789ABCDEF00000001''),
                            (''quantity'', PyInt 3)],
                           [(''product_id'', PyStr ''0123456789ABCDEF00000001''),
                            (''quantity'', PyInt 3)]],
                o_total = Dbl 6 0, o_status = ''placed''\<rparr>]\<rparr>)"
proof (intro conjI impI)
  assume a: "check_items (product_coll db) (items order) (Dbl 0 0) = Inr t
      \<and> distinct (map (\<lambda>x. ObjectId (product_id x)) (items order))
      \<and> (\<forall>it\<in>set (items order). int64 (quantity it) \<and> int64 (- quantity it)
            \<and> (\<forall>i prd. ObjectId (product_id it) = Inr i
                  \<and> find_one (has_id i) (product_coll db) = Some prd
                \<longrightarrow> int64 (dict_get (p_stock prd) 0 - quantity it)))"
  then have c: "check_items (product_coll db) (items order) (Dbl 0 0) = Inr t"
    and d: "distinct (map (\<lambda>x. ObjectId (product_id x)) (items order))"
    and q: "\<forall>it\<in>set (items order). int64 (quantity it)"
    and n: "\<forall>it\<in>set (items order). int64 (- quantity it)"
    and w: "\<forall>it\<in>set (items order). \<forall>i prd. ObjectId (product_id it) = Inr i
                  \<and> find_one (has_id i) (product_coll db) = Some prd
                \<longrightarrow> int64 (dict_get (p_stock prd) 0 - quantity it)"
    by blast+
  from reduce_stock_distinct[OF check_items_Inr_ids[OF c] d n w]
  obtain ps where r: "reduce_stock (product_coll db) (items order) = (None, ps)"
    and s: "\<forall>it\<in>set (items order). \<forall>i. ObjectId (product_id it) = Inr i \<longrightarrow>
              find_one (has_id i) ps
                = map_option (inc_stock (- quantity it)) (find_one (has_id i) (product_coll db))"
    by blast
  let ?db = "db\<lparr>product_coll := ps,
                 order_coll := order_coll db @
                   [\<lparr>o_id = new_id, o_user_id = user_id order,
                     o_items = map item_model_dump (items order),
                     o_total = t, o_status = ''placed''\<rparr>]\<rparr>"
  from place_order_ok[OF c r q, of new_id]
  have p: "place_order new_id order (Some db) =
             (Inr \<lparr>oo_id = str_oid new_id, oo_user_id = user_id order, oo_total = t,
                   oo_status = ''placed''\<rparr>, Some ?db)" .
  have "\<forall>it\<in>set (items order). \<exists>i prd prd'.
                 ObjectId (product_id it) = Inr i
               \<and> find_one (has_id i) (product_coll db) = Some prd
               \<and> find_one (has_id i) (product_coll ?db) = Some prd'
               \<and> p_stock prd' = Some (dict_get (p_stock prd) 0 - quantity it)
               \<and> 0 \<le> dict_get (p_stock prd) 0 - quantity it"
  proof
    fix it assume it: "it \<in> set (items order)"
    with check_items_Inr_all[OF c] obtain i prd where
      i: "ObjectId (product_id it) = Inr i"
      and f: "find_one (has_id i) (product_coll db) = Some prd"
      and q: "quantity it \<le> dict_get (p_stock prd) 0"
      by blast
    from s it i f have "find_one (has_id i) ps = Some (inc_stock (- quantity it) prd)"
      by simp
    with i f q show "\<exists>i prd prd'.
                 ObjectId (product_id it) = Inr i
               \<and> find_one (has_id i) (product_coll db) = Some prd
               \<and> find_one (has_id i) (product_coll ?db) = Some prd'
               \<and> p_stock prd' = Some (dict_get (p_stock prd) 0 - quantity it)
               \<and> 0 \<le> dict_get (p_stock prd) 0 - quantity it"
      by (simp add: inc_stock_def)
  qed
  with p show "\<exists>db'. place_order new_id order (Some db) =
             (Inr \<lparr>oo_id = str_oid new_id, oo_user_id = user_id order, oo_total = t,
                   oo_status = ''placed''\<rparr>, Some db')
           \<and> (\<forall>it\<in>set (items order). \<exists>i prd prd'.
                 ObjectId (product_id it) = Inr i
               \<and> find_one (has_id i) (product_coll db) = Some prd
               \<and> find_one (has_id i) (product_coll db') = Some prd'
               \<and> p_stock prd' = Some (dict_get (p_stock prd) 0 - quantity it)
               \<and> 0 \<le> dict_get (p_stock prd) 0 - quantity it)"
    by blast
next
  show "place_order oid_c
       \<lparr>user_id = ''u1'',
        items = [\<lparr>product_id = ''0123456789ABCDEF00000001'', quantity = 3\<rparr>,
                 \<lparr>product_id = ''0123456789ABCDEF00000001'', quantity = 3\<rparr>]\<rparr>
       (Some \<lparr>user_coll = [], product_coll = [sample_product oid_a (Dbl 1 0) 5],
              order_coll = []\<rparr>) =
     (Inr \<lparr>oo_id = str_oid oid_c, oo_user_id = ''u1'', oo_total = Dbl 6 0,
           oo_status = ''placed''\<rparr>,
      Some \<lparr>user_coll = [], product_coll = [sample_product oid_a (Dbl 1 0) (- 1)],
            order_coll =
              [\<lparr>o_id = oid_c, o_user_id = ''u1'',
                o_items = [[(''product_id'', PyStr ''0123456789ABCDEF00000001''),
                            (''quantity'', PyInt 3)],
                           [(''product_id'', PyStr ''0123456789ABCDEF00000001''),
                            (''quantity'', PyInt 3)]],
                o_total = Dbl 6 0, o_status = ''placed''\<rparr>]\<rparr>)"
    by (rule place_order_duplicate_lines)
qed

theorem place_order_distinct_stock_witness:
  "check_items (product_coll (sample_store 5)) (items (sample_order 3)) (Dbl 0 0) = Inr (Dbl 3 0)
   \<and> distinct (map (\<lambda>x. ObjectId (product_id x)) (items (sample_order 3)))
   \<and> int64 3 \<and> int64 (- 3) \<and> int64 (5 - 3)
   \<and> (\<exists>db' prd'. place_order oid_c (sample_order 3) (Some (sample_store 5)) =
             (Inr \<lparr>oo_id = str_oid oid_c, oo_user_id = ''u1'', oo_total = Dbl 3 0,
                   oo_status = ''placed''\<rparr>, Some db')
         \<and> find_one (has_id oid_a) (product_coll db') = Some prd'
         \<and> p_stock prd' = Some 2)"
proof -
  have d: "distinct (map (\<lambda>x. ObjectId (product_id x)) (items (sample_order 3)))"
    by (simp add: sample_order_def)
  have b: "int64 3" "int64 (- 3)" "int64 (5 - 3)"
    by (simp_all add: int64_def)
  have h: "\<forall>it\<in>set (items (sample_order 3)). int64 (quantity it) \<and> int64 (- quantity it)
            \<and> (\<forall>i prd. ObjectId (product_id it) = Inr i
                  \<and> find_one (has_id i) (product_coll (sample_store 5)) = Some prd
                \<longrightarrow> int64 (dict_get (p_stock prd) 0 - quantity it))"
    using b
    by (auto simp: sample_order_def sample_store_def ObjectId_sample find_one_def has_id_def
        sample_product_def dict_get_def)
  from place_order_distinct_stock
    [of "sample_store 5" "sample_order 3" "Dbl 3 0" oid_c, THEN conjunct1]
    sample_check_items d h
  have "\<exists>db'. place_order oid_c (sample_order 3) (Some (sample_store 5)) =
             (Inr \<lparr>oo_id = str_oid oid_c, oo_user_id = user_id (sample_order 3),
                   oo_total = Dbl 3 0, oo_status = ''placed''\<rparr>, Some db')
           \<and> (\<forall>it\<in>set (items (sample_order 3)). \<exists>i prd prd'.
                 ObjectId (product_id it) = Inr i
               \<and> find_one (has_id i) (product_coll (sample_store 5)) = Some prd
               \<and> find_one (has_id i) (product_coll db') = Some prd'
               \<and> p_stock prd' = Some (dict_get (p_stock prd) 0 - quantity it)
               \<and> 0 \<le> dict_get (p_stock prd) 0 - quantity it)"
    by blast
  then obtain db' where
    p: "place_order oid_c (sample_order 3) (Some (sample_store 5)) =
             (Inr \<lparr>oo_id = str_oid oid_c, oo_user_id = user_id (sample_order 3),
                   oo_total = Dbl 3 0, oo_status = ''placed''\<rparr>, Some db')"
    and "\<exists>i prd prd'.
                 ObjectId ''0123456789ABCDEF00000001'' = Inr i
               \<and> find_one (has_id i) (product_coll (sample_store 5)) = Some prd
               \<and> find_one (has_id i) (product_coll db') = Some prd'
               \<and> p_stock prd' = Some (dict_get (p_stock prd) 0 - 3)"
    by (auto simp: sample_order_def)
  then obtain prd' where "find_one (has_id oid_a) (product_coll db') = Some prd'"
    and "p_stock prd' = Some 2"
    by (auto simp: ObjectId_sample sample_store_def find_one_def has_id_def sample_product_def
        dict_get_def)
  with p sample_check_items d b show ?thesis
    by (auto simp: sample_order_def)
qed

text \<open>
  C9 as stated fails in three ways. For product ids that are pairwise distinct as
  strings: the two spellings of one ObjectId, in upper and in lower case, are distinct
  strings and name the same product, so both lines pass the check against stock 5 and
  the stock ends at -1. For a quantity whose negation is no integer of 64 bits: with two
  products of stock 5 and quantities 1 and \<open>- 2 ^ 63\<close> both lines pass the check, the
  first product is decremented to 4, and the second update raises \<^verbatim>\<open>OverflowError\<close>: no
  order is placed and the second product keeps stock 5. For a resulting stock that is
  no integer of 64 bits: with stock \<open>2 ^ 63 - 1\<close> and quantity -1 the line passes the
  check and the update is refused, so no order is placed and the stock is unchanged.
\<close>

theorem place_order_distinct_stock_counterexample:
  "''0123456789ABCDEF00000001'' \<noteq> ''0123456789abcdef00000001''
   \<and> place_order oid_c
       \<lparr>user_id = ''u1'',
        items = [\<lparr>product_id = ''0123456789ABCDEF00000001'', quantity = 3\<rparr>,
                 \<lparr>product_id = ''0123456789abcdef00000001'', quantity = 3\<rparr>]\<rparr>
       (Some \<lparr>user_coll = [], product_coll = [sample_product oid_a (Dbl 1 0) 5],
              order_coll = []\<rparr>) =
     (Inr \<lparr>oo_id = str_oid oid_c, oo_user_id = ''u1'', oo_total = Dbl 6 0,
           oo_status = ''placed''\<rparr>,
      Some \<lparr>user_coll = [], product_coll = [sample_product oid_a (Dbl 1 0) (- 1)],
            order_coll =
              [\<lparr>o_id = oid_c, o_user_id = ''u1'',
                o_items = [[(''product_id'', PyStr ''0123456789ABCDEF00000001''),
                            (''quantity'', PyInt 3)],
                           [(''product_id'', PyStr ''0123456789abcdef00000001''),
                            (''quantity'', PyInt 3)]],
                o_total = Dbl 6 0, o_status = ''placed''\<rparr>]\<rparr>)
   \<and> place_order oid_c
       \<lparr>user_id = ''u1'',
        items = [\<lparr>product_id = ''0123456789ABCDEF00000001'', quantity = 1\<rparr>,
                 \<lparr>product_id = ''0123456789abcdef00000002'', quantity = - (2 ^ 63)\<rparr>]\<rparr>
       (Some \<lparr>user_coll = [],
              product_coll = [sample_product oid_a (Dbl 1 0) 5, sample_product oid_b (Dbl 1 0) 5],
              order_coll = []\<rparr>) =
     (Inl OverflowError,
      Some \<lparr>user_coll = [],
            product_coll = [sample_product oid_a (Dbl 1 0) 4, sample_product oid_b (Dbl 1 0) 5],
            order_coll = []\<rparr>)
   \<and> place_order oid_c
       \<lparr>user_id = ''u1'',
        items = [\<lparr>product_id = ''0123456789ABCDEF00000001'', quantity = - 1\<rparr>]\<rparr>
       (Some \<lparr>user_coll = [], product_coll = [sample_product oid_a (Dbl 1 0) (2 ^ 63 - 1)],
              order_coll = []\<rparr>) =
     (Inl WriteError,
      Some \<lparr>user_coll = [], product_coll = [sample_product oid_a (Dbl 1 0) (2 ^ 63 - 1)],
            order_coll = []\<rparr>)"
proof -
  have 1: "''0123456789ABCDEF00000001'' \<noteq> ''0123456789abcdef00000001''"
    by simp
  have 2: "place_order oid_c
       \<lparr>user_id = ''u1'',
        items = [\<lparr>product_id = ''0123456789ABCDEF00000001'', quantity = 3\<rparr>,
                 \<lparr>product_id = ''0123456789abcdef00000001'', quantity = 3\<rparr>]\<rparr>
       (Some \<lparr>user_coll = [], product_coll = [sample_product oid_a (Dbl 1 0) 5],
              order_coll = []\<rparr>) =
     (Inr \<lparr>oo_id = str_oid oid_c, oo_user_id = ''u1'', oo_total = Dbl 6 0,
           oo_status = ''placed''\<rparr>,
      Some \<lparr>user_coll = [], product_coll = [sample_product oid_a (Dbl 1 0) (- 1)],
            order_coll =
              [\<lparr>o_id = oid_c, o_user_id = ''u1'',
                o_items = [[(''product_id'', PyStr ''0123456789ABCDEF00000001''),
                            (''quantity'', PyInt 3)],
                           [(''product_id'', PyStr ''0123456789abcdef00000001''),
                            (''quantity'', PyInt 3)]],
                o_total = Dbl 6 0, o_status = ''placed''\<rparr>]\<rparr>)"
    by (simp add: place_order_def ObjectId_sample ObjectId_sample_lower find_one_def has_id_def
        sample_product_def dict_get_def float_of_int_examples float_unit_examples
        update_one_inc_def int64_def inc_stock_def create_document_def insert_one_def
        item_model_dump_def order_ints_def pyval_ints_def)
  have ab: "oid_b \<noteq> oid_a"
    by (simp add: oid_a_def oid_b_def)
  have n3: "\<not> (5 :: int) < - (2 ^ 63)"
    by simp
  have c3: "\<exists>t. check_items
              [sample_product oid_a (Dbl 1 0) 5, sample_product oid_b (Dbl 1 0) 5]
              [\<lparr>product_id = ''0123456789ABCDEF00000001'', quantity = 1\<rparr>,
               \<lparr>product_id = ''0123456789abcdef00000002'', quantity = - (2 ^ 63)\<rparr>]
              (Dbl 0 0) = Inr t"
    using ab n3
    by (simp add: ObjectId_sample ObjectId_sample_b find_one_def has_id_def sample_product_def
        dict_get_def float_of_int_examples float_of_int_least_int64 del: power_numeral)
  have r3: "reduce_stock
              [sample_product oid_a (Dbl 1 0) 5, sample_product oid_b (Dbl 1 0) 5]
              [\<lparr>product_id = ''0123456789ABCDEF00000001'', quantity = 1\<rparr>,
               \<lparr>product_id = ''0123456789abcdef00000002'', quantity = - (2 ^ 63)\<rparr>]
            = (Some OverflowError,
               [sample_product oid_a (Dbl 1 0) 4, sample_product oid_b (Dbl 1 0) 5])"
    using ab
    by (simp add: ObjectId_sample ObjectId_sample_b find_one_def has_id_def sample_product_def
        dict_get_def update_one_inc_def int64_def inc_stock_def)
  from c3 r3 have 3: "place_order oid_c
       \<lparr>user_id = ''u1'',
        items = [\<lparr>product_id = ''0123456789ABCDEF00000001'', quantity = 1\<rparr>,
                 \<lparr>product_id = ''0123456789abcdef00000002'', quantity = - (2 ^ 63)\<rparr>]\<rparr>
       (Some \<lparr>user_coll = [],
              product_coll = [sample_product oid_a (Dbl 1 0) 5, sample_product oid_b (Dbl 1 0) 5],
              order_coll = []\<rparr>) =
     (Inl OverflowError,
      Some \<lparr>user_coll = [],
            product_coll = [sample_product oid_a (Dbl 1 0) 4, sample_product oid_b (Dbl 1 0) 5],
            order_coll = []\<rparr>)"
    by (auto simp: place_order_def)
  have 4: "place_order oid_c
       \<lparr>user_id = ''u1'',
        items = [\<lparr>product_id = ''0123456789ABCDEF00000001'', quantity = - 1\<rparr>]\<rparr>
       (Some \<lparr>user_coll = [], product_coll = [sample_product oid_a (Dbl 1 0) (2 ^ 63 - 1)],
              order_coll = []\<rparr>) =
     (Inl WriteError,
      Some \<lparr>user_coll = [], product_coll = [sample_product oid_a (Dbl 1 0) (2 ^ 63 - 1)],
            order_coll = []\<rparr>)"
    by (simp add: place_order_def ObjectId_sample find_one_def has_id_def
        sample_product_def dict_get_def float_of_int_examples
        update_one_inc_def int64_def inc_stock_def)
  from 1 2 3 4 show ?thesis by simp
qed

subsection \<open>Admin product creation\<close>

text \<open>
  C4 fails on the code. \<^verbatim>\<open>ProductIn\<close> of main.py carries no lower bound on \<^verbatim>\<open>price\<close> and
  \<^verbatim>\<open>stock\<close> (the bounds \<^verbatim>\<open>ge=0\<close> stand in \<^verbatim>\<open>Product\<close> of schemas.py, which main.py does
  not use), so admin product creation stores a negative price and a negative stock: a
  document outside the bounds schemas.py declares for the collection.
\<close>

theorem create_product_negative:
  "create_product ''k'' oid_b
     \<lparr>req_product = \<lparr>pi_name = ''Mango'', pi_description = None, pi_price = Dbl (- 1) 0,
                      pi_image = None, pi_stock = - 5\<rparr>,
      req_credentials = \<lparr>login_email = ADMIN_EMAIL, login_password = ADMIN_PASSWORD\<rparr>\<rparr>
     (seed_admin ''k'' oid_a 1 2 (Some empty_db))
   = (Inr \<lparr>pi_name = ''Mango'', pi_description = None, pi_price = Dbl (- 1) 0,
           pi_image = None, pi_stock = - 5, po_id = str_oid oid_b\<rparr>,
      Some \<lparr>user_coll =
              [\<lparr>u_id = oid_a, u_name = Some ''Admin'', u_email = Some ADMIN_EMAIL,
                u_password_hash = Some (hash_password ''k'' ADMIN_PASSWORD),
                u_role = Some ''admin'', u_created_at = Some 1, u_updated_at = Some 2\<rparr>],
            product_coll =
              [\<lparr>p_id = oid_b, p_name = Some ''Mango'', p_description = None,
                p_price = Some (Dbl (- 1) 0), p_image = None, p_stock = Some (- 5)\<rparr>],
            order_coll = []\<rparr>)
   \<and> float_val (Dbl (- 1) 0) = - 1
   \<and> \<not> Product_bounds
         \<lparr>p_id = oid_b, p_name = Some ''Mango'', p_description = None,
          p_price = Some (Dbl (- 1) 0), p_image = None, p_stock = Some (- 5)\<rparr>"
  by (simp add: Product_bounds_def create_product_def seed_admin_def empty_db_def find_one_def has_email_def
      insert_one_def update_many_def other_admin_def dict_get_def verify_password_digest
      create_document_def product_ints_def int64_def product_model_dump_def float_val_def
      ProductIn.defs ProductOut.defs)

text \<open>
  The stored product of that request, read back: its stock is -5 and the mantissa of its
  price is -1.
\<close>

theorem create_product_negative_witness:
  "map_option (map p_stock \<circ> product_coll)
     (snd (create_product ''k'' oid_b
        \<lparr>req_product = \<lparr>pi_name = ''Mango'', pi_description = None, pi_price = Dbl (- 1) 0,
                         pi_image = None, pi_stock = - 5\<rparr>,
         req_credentials = \<lparr>login_email = ADMIN_EMAIL, login_password = ADMIN_PASSWORD\<rparr>\<rparr>
        (seed_admin ''k'' oid_a 1 2 (Some empty_db)))) = Some [Some (- 5)]
   \<and> map_option (map (map_option mant \<circ> p_price) \<circ> product_coll)
     (snd (create_product ''k'' oid_b
        \<lparr>req_product = \<lparr>pi_name = ''Mango'', pi_description = None, pi_price = Dbl (- 1) 0,
                         pi_image = None, pi_stock = - 5\<rparr>,
         req_credentials = \<lparr>login_email = ADMIN_EMAIL, login_password = ADMIN_PASSWORD\<rparr>\<rparr>
        (seed_admin ''k'' oid_a 1 2 (Some empty_db)))) = Some [Some (- 1)]"
  using create_product_negative by simp

end
